theory Spec2Isabelle
  imports Complex_Main
begin

section \<open>JavaScript values\<close>

text \<open>
  The two handlers of \<^verbatim>\<open>functions/index.js\<close> read untyped request data, so the
  model starts from the values a request can carry: the JSON values, \<^verbatim>\<open>undefined\<close>,
  and the Firestore sentinel \<^verbatim>\<open>FieldValue.serverTimestamp()\<close>.

  A number is NaN or a finite value. Finite doubles are rationals, and the handlers
  only test a number for truthiness, take \<^verbatim>\<open>Math.min\<close> with a constant and compare
  it with a loop counter, all of which are exact; the two infinities are left out
  (\<^verbatim>\<open>Math.min\<close> would cap the positive one, the negative one acts as a negative
  number). A string is a list of Latin-1 characters.
\<close>

datatype jsnum = NaN | Fin rat

datatype jsval =
    JUndefined
  | JNull
  | JBool bool
  | JNum jsnum
  | JStr string
  | JObj "(string \<times> jsval) list"
  | JArr "jsval list"
  | ServerTimestamp

text \<open>Truthiness, as \<^verbatim>\<open>!x\<close>, \<^verbatim>\<open>x || y\<close>, \<^verbatim>\<open>x && y\<close> and \<^verbatim>\<open>x ? a : b\<close> test it.\<close>

fun truthy :: "jsval \<Rightarrow> bool" where
  "truthy JUndefined = False"
| "truthy JNull = False"
| "truthy (JBool b) = b"
| "truthy (JNum NaN) = False"
| "truthy (JNum (Fin q)) = (q \<noteq> 0)"
| "truthy (JStr s) = (s \<noteq> [])"
| "truthy (JObj kvs) = True"
| "truthy (JArr xs) = True"
| "truthy ServerTimestamp = True"

definition js_or :: "jsval \<Rightarrow> jsval \<Rightarrow> jsval" where
  "js_or a b = (if truthy a then a else b)"

definition js_and :: "jsval \<Rightarrow> jsval \<Rightarrow> jsval" where
  "js_and a b = (if truthy a then b else a)"

text \<open>
  \<^verbatim>\<open>a === b\<close>: primitives compare by value (NaN differs from itself); an object or
  array met in a request is never the same reference as another value.
\<close>

fun strict_eq :: "jsval \<Rightarrow> jsval \<Rightarrow> bool" where
  "strict_eq JUndefined JUndefined = True"
| "strict_eq JNull JNull = True"
| "strict_eq (JBool a) (JBool b) = (a = b)"
| "strict_eq (JNum a) (JNum b) = (a = b \<and> a \<noteq> NaN)"
| "strict_eq (JStr a) (JStr b) = (a = b)"
| "strict_eq a b = False"

text \<open>\<^verbatim>\<open>typeof v\<close>; \<^verbatim>\<open>typeof null\<close> is \<^verbatim>\<open>"object"\<close>.\<close>

fun typeof :: "jsval \<Rightarrow> string" where
  "typeof JUndefined = ''undefined''"
| "typeof JNull = ''object''"
| "typeof (JBool b) = ''boolean''"
| "typeof (JNum n) = ''number''"
| "typeof (JStr s) = ''string''"
| "typeof (JObj kvs) = ''object''"
| "typeof (JArr xs) = ''object''"
| "typeof ServerTimestamp = ''object''"

text \<open>Decimal digits of a natural number and of an integer (\<^verbatim>\<open>toString()\<close> on an integer).\<close>

fun show_nat :: "nat \<Rightarrow> string" where
  "show_nat n =
     (if n < 10 then [char_of (48 + n)]
      else show_nat (n div 10) @ [char_of (48 + n mod 10)])"

definition show_int :: "int \<Rightarrow> string" where
  "show_int i = (if i < 0 then CHR ''-'' # show_nat (nat (- i)) else show_nat (nat i))"

text \<open>
  Property read \<^verbatim>\<open>v?.k\<close>: the own property of an object, an index or the length of
  an array, \<^verbatim>\<open>undefined\<close> otherwise. Every plain read \<^verbatim>\<open>v.k\<close> of the handlers is on
  a value already known not to be null or undefined, where it agrees with \<^verbatim>\<open>v?.k\<close>,
  and none of the names they read is inherited from a prototype.
\<close>

fun get_prop :: "jsval \<Rightarrow> string \<Rightarrow> jsval" where
  "get_prop (JObj kvs) k = (case map_of kvs k of None \<Rightarrow> JUndefined | Some v \<Rightarrow> v)"
| "get_prop (JArr xs) k =
     (if k = ''length'' then JNum (Fin (of_nat (length xs)))
      else (case filter (\<lambda>i. show_nat i = k) [0..<length xs] of
              [] \<Rightarrow> JUndefined
            | i # _ \<Rightarrow> xs ! i))"
| "get_prop v k = JUndefined"

text \<open>
  Writing a property in an object literal: an existing key keeps its place and takes
  the new value, a new key is appended.
\<close>

fun set_prop :: "(string \<times> jsval) list \<Rightarrow> string \<Rightarrow> jsval \<Rightarrow> (string \<times> jsval) list" where
  "set_prop [] k v = [(k, v)]"
| "set_prop ((k', v') # kvs) k v =
     (if k' = k then (k, v) # kvs else (k', v') # set_prop kvs k v)"

text \<open>The own enumerable properties that \<^verbatim>\<open>{...v}\<close> copies.\<close>

fun spread :: "jsval \<Rightarrow> (string \<times> jsval) list" where
  "spread (JObj kvs) = kvs"
| "spread (JArr xs) = zip (map show_nat [0..<length xs]) xs"
| "spread (JStr s) = zip (map show_nat [0..<length s]) (map (\<lambda>c. JStr [c]) s)"
| "spread v = []"

subsection \<open>Strings\<close>

text \<open>\<^verbatim>\<open>toLowerCase()\<close> on Latin-1: A to Z, and U+00C0 to U+00DE without the multiplication sign.\<close>

definition lower_char :: "char \<Rightarrow> char" where
  "lower_char c =
     (let n = (of_char c :: nat)
      in if (65 \<le> n \<and> n \<le> 90) \<or> (192 \<le> n \<and> n \<le> 222 \<and> n \<noteq> 215)
         then char_of (n + 32) else c)"

definition toLowerCase :: "string \<Rightarrow> string" where
  "toLowerCase s = map lower_char s"

text \<open>The character class \<^verbatim>\<open>[a-zA-Z0-9_]\<close> and \<^verbatim>\<open>replace(/[^a-zA-Z0-9_]/g, "")\<close>.\<close>

definition word_char :: "char \<Rightarrow> bool" where
  "word_char c =
     (let n = (of_char c :: nat)
      in (97 \<le> n \<and> n \<le> 122) \<or> (65 \<le> n \<and> n \<le> 90) \<or> (48 \<le> n \<and> n \<le> 57) \<or> n = 95)"

definition strip_non_word :: "string \<Rightarrow> string" where
  "strip_non_word s = filter word_char s"

subsection \<open>Conversions of the language runtime\<close>

text \<open>
  An exception, carried as the text \<^verbatim>\<open>String(err)\<close> gives.
\<close>

datatype exn = Exn string

text \<open>
  \<^verbatim>\<open>Number(v)\<close> and \<^verbatim>\<open>String(v)\<close> are written out on undefined, null and booleans.
  Reading a number out of a string, printing a number, and converting an object or an
  array (which goes through its \<^verbatim>\<open>toString\<close> and can throw) belong to the runtime
  and are parameters; so is the clock behind \<^verbatim>\<open>new Date().toISOString()\<close>.
\<close>

record runtime =
  string_to_number :: "string \<Rightarrow> jsnum"
  number_to_string :: "jsnum \<Rightarrow> string"
  object_to_number :: "jsval \<Rightarrow> exn + jsnum"
  object_to_string :: "jsval \<Rightarrow> exn + string"
  date_now_iso :: "nat \<Rightarrow> string"

fun Number :: "runtime \<Rightarrow> jsval \<Rightarrow> exn + jsnum" where
  "Number rt JUndefined = Inr NaN"
| "Number rt JNull = Inr (Fin 0)"
| "Number rt (JBool b) = Inr (Fin (if b then 1 else 0))"
| "Number rt (JNum n) = Inr n"
| "Number rt (JStr s) = Inr (string_to_number rt s)"
| "Number rt v = object_to_number rt v"

fun String :: "runtime \<Rightarrow> jsval \<Rightarrow> exn + string" where
  "String rt JUndefined = Inr ''undefined''"
| "String rt JNull = Inr ''null''"
| "String rt (JBool b) = Inr (if b then ''true'' else ''false'')"
| "String rt (JNum n) = Inr (number_to_string rt n)"
| "String rt (JStr s) = Inr s"
| "String rt v = object_to_string rt v"

text \<open>\<^verbatim>\<open>Math.min(a, b)\<close> and \<^verbatim>\<open>a < b\<close> on numbers: NaN poisons the first and fails the second.\<close>

fun Math_min :: "jsnum \<Rightarrow> jsnum \<Rightarrow> jsnum" where
  "Math_min (Fin a) (Fin b) = Fin (min a b)"
| "Math_min a b = NaN"

fun js_lt :: "jsnum \<Rightarrow> jsnum \<Rightarrow> bool" where
  "js_lt (Fin a) (Fin b) = (a < b)"
| "js_lt a b = False"

section \<open>Requests, responses and the server key\<close>

text \<open>
  \<^verbatim>\<open>req.query\<close> is always an object; \<^verbatim>\<open>req.get(name)\<close> looks a header up without
  regard to case and gives a string or \<^verbatim>\<open>undefined\<close>; \<^verbatim>\<open>req.body\<close> is whatever
  the body parser produced, possibly \<^verbatim>\<open>undefined\<close>.
\<close>

record request =
  query :: "(string \<times> jsval) list"
  headers :: "(string \<times> string) list"
  body :: jsval

definition req_get :: "request \<Rightarrow> string \<Rightarrow> jsval" where
  "req_get req name =
     (case map_of (map (\<lambda>(k, v). (toLowerCase k, v)) (headers req)) (toLowerCase name) of
        None \<Rightarrow> JUndefined
      | Some s \<Rightarrow> JStr s)"

record response =
  status :: nat
  json :: jsval

text \<open>
  \<^verbatim>\<open>SEED_KEY\<close>: the deployment configuration value \<^verbatim>\<open>seed.key\<close>, else the
  environment variable, else the development default. Both sources hold strings.
\<close>

record deployment =
  config_seed_key :: "string option"
  env_SEED_KEY :: "string option"

definition opt_str :: "string option \<Rightarrow> jsval" where
  "opt_str x = (case x of None \<Rightarrow> JUndefined | Some s \<Rightarrow> JStr s)"

definition SEED_KEY :: "deployment \<Rightarrow> jsval" where
  "SEED_KEY d =
     js_or (js_or (opt_str (config_seed_key d)) (opt_str (env_SEED_KEY d))) (JStr ''dev-seed-key'')"

text \<open>The secret a request supplies: lines 96 to 100 for seedData, line 233 for updateUser.\<close>

definition seedData_key :: "request \<Rightarrow> jsval" where
  "seedData_key req =
     js_or (js_or (js_or (get_prop (JObj (query req)) ''key'') (req_get req ''x-seed-key''))
                  (js_and (body req) (get_prop (body req) ''key'')))
           (JStr [])"

definition updateUser_key :: "request \<Rightarrow> jsval" where
  "updateUser_key req =
     js_or (js_or (js_or (get_prop (body req) ''key'') (get_prop (JObj (query req)) ''key''))
                  (req_get req ''x-seed-key''))
           (JStr [])"

definition unauthorized :: "deployment \<Rightarrow> jsval \<Rightarrow> bool" where
  "unauthorized d key = (\<not> truthy key \<or> \<not> strict_eq key (SEED_KEY d))"


section \<open>The storage gateway\<close>

text \<open>
  The Firestore client is an external collaborator. A document reference is the
  collection with the key handed to \<^verbatim>\<open>doc(...)\<close>, or the collection alone for
  \<^verbatim>\<open>doc()\<close>, whose key the client assigns. What a commit, an update or a read does
  to the stored documents, and whether it throws, is the gateway's: the three calls are
  parameters over a store of any type, and the model records every call it issues.
  What the client checks about a path or about the data handed over is taken to be part
  of these calls.
\<close>

datatype docref = DocRef string jsval | AutoId string

datatype batch_write = BatchSet docref jsval bool

datatype call = Commit "batch_write list" | Update docref jsval | Get docref

record 's gateway =
  gw_commit :: "'s \<Rightarrow> batch_write list \<Rightarrow> exn + 's"
  gw_update :: "'s \<Rightarrow> docref \<Rightarrow> jsval \<Rightarrow> exn + 's"
  gw_get :: "'s \<Rightarrow> docref \<Rightarrow> exn + jsval"

record 's world =
  store :: 's
  issued :: "call list"

definition batch_commit :: "'s gateway \<Rightarrow> batch_write list \<Rightarrow> 's world \<Rightarrow> (exn + unit) \<times> 's world" where
  "batch_commit gw batch w =
     (let w' = w\<lparr>issued := issued w @ [Commit batch]\<rparr>
      in case gw_commit gw (store w) batch of
           Inl e \<Rightarrow> (Inl e, w')
         | Inr s \<Rightarrow> (Inr (), w'\<lparr>store := s\<rparr>))"

definition ref_update :: "'s gateway \<Rightarrow> docref \<Rightarrow> jsval \<Rightarrow> 's world \<Rightarrow> (exn + unit) \<times> 's world" where
  "ref_update gw r d w =
     (let w' = w\<lparr>issued := issued w @ [Update r d]\<rparr>
      in case gw_update gw (store w) r d of
           Inl e \<Rightarrow> (Inl e, w')
         | Inr s \<Rightarrow> (Inr (), w'\<lparr>store := s\<rparr>))"

definition ref_get :: "'s gateway \<Rightarrow> docref \<Rightarrow> 's world \<Rightarrow> (exn + jsval) \<times> 's world" where
  "ref_get gw r w = (gw_get gw (store w) r, w\<lparr>issued := issued w @ [Get r]\<rparr>)"

section \<open>Entity generators\<close>

text \<open>
  The fake-data library is a pseudo-random source: each of its functions is a parameter
  that maps the position in the random stream to the value drawn there, and every draw
  moves the position on by one. The record holds the functions of the library that the
  generators call and that the library has.
\<close>

record faker =
  string_uuid :: "nat \<Rightarrow> string"
  internet_userName :: "nat \<Rightarrow> string"
  person_fullName :: "nat \<Rightarrow> string"
  image_avatar :: "nat \<Rightarrow> string"
  internet_email :: "nat \<Rightarrow> string"
  lorem_sentence :: "nat \<Rightarrow> string"
  lorem_paragraph :: "nat \<Rightarrow> string"
  music_artist :: "nat \<Rightarrow> string"
  music_genre :: "nat \<Rightarrow> string"
  music_songName :: "nat \<Rightarrow> string"
  number_int :: "int \<Rightarrow> int \<Rightarrow> nat \<Rightarrow> int"
  date_past_year :: "nat \<Rightarrow> nat \<Rightarrow> int"

record fake_user =
  u_id :: string
  u_username :: string
  u_email :: string
  u_name :: string
  u_bio :: string
  u_profileImageUrl :: string
  u_avatarUrl :: string
  u_usernameLowercase :: string
  u_nameLowercase :: string
  u_followers :: int
  u_followersCount :: int
  u_following :: int
  u_followingCount :: int
  u_createdAt :: jsval
  u_updatedAt :: jsval

record fake_artist =
  a_id :: int
  a_name :: string
  a_profileImageUrl :: string
  a_genre :: string
  a_createdAt :: jsval

record artist_snapshot =
  s_id :: int
  s_name :: string
  s_profileImageUrl :: string
  s_genre :: string

record fake_album =
  al_id :: int
  al_title :: string
  al_year :: string
  al_coverUrl :: string
  al_artist :: artist_snapshot
  al_createdAt :: jsval

record fake_review =
  rv_content :: string
  rv_score :: int
  rv_isLowScore :: bool
  rv_albumId :: int
  rv_userId :: string
  rv_firebaseUserId :: string
  rv_likesCount :: int
  rv_createdAt :: string
  rv_updatedAt :: string

definition makeFakeUser :: "faker \<Rightarrow> nat \<Rightarrow> fake_user \<times> nat" where
  "makeFakeUser fk g =
     (let id = string_uuid fk g;
          username = toLowerCase (strip_non_word (internet_userName fk (g + 1)));
          name = person_fullName fk (g + 2);
          profileImageUrl = image_avatar fk (g + 3);
          email = internet_email fk (g + 4)
      in (\<lparr>u_id = id,
           u_username = username,
           u_email = email,
           u_name = name,
           u_bio = lorem_sentence fk (g + 5),
           u_profileImageUrl = profileImageUrl,
           u_avatarUrl = profileImageUrl,
           u_usernameLowercase = toLowerCase username,
           u_nameLowercase = toLowerCase name,
           u_followers = 0,
           u_followersCount = 0,
           u_following = 0,
           u_followingCount = 0,
           u_createdAt = ServerTimestamp,
           u_updatedAt = ServerTimestamp\<rparr>, g + 6))"

text \<open>
  \<^verbatim>\<open>faker.image.urlPicsum()\<close>, called at lines 50 and 62: the library has no
  function of that name (its functions for image addresses are \<^verbatim>\<open>url\<close>,
  \<^verbatim>\<open>urlPicsumPhotos\<close> and \<^verbatim>\<open>urlLoremFlickr\<close>), so the call throws a TypeError
  whatever the position in the random stream. The properties of an object literal are
  evaluated in order, so the ones written after it are never reached.
\<close>

definition image_urlPicsum :: "faker \<Rightarrow> nat \<Rightarrow> exn + string" where
  "image_urlPicsum fk g = Inl (Exn ''TypeError: faker.image.urlPicsum is not a function'')"

definition makeFakeArtist :: "faker \<Rightarrow> nat \<Rightarrow> exn + fake_artist \<times> nat" where
  "makeFakeArtist fk g =
     (let id = number_int fk 1000 9999 g;
          name = music_artist fk (g + 1)
      in case image_urlPicsum fk (g + 2) of
           Inl e \<Rightarrow> Inl e
         | Inr profileImageUrl \<Rightarrow>
             Inr (\<lparr>a_id = id,
                   a_name = name,
                   a_profileImageUrl = profileImageUrl,
                   a_genre = music_genre fk (g + 3),
                   a_createdAt = ServerTimestamp\<rparr>, g + 4))"

definition makeFakeAlbum :: "faker \<Rightarrow> fake_artist \<Rightarrow> nat \<Rightarrow> exn + fake_album \<times> nat" where
  "makeFakeAlbum fk artist g =
     (let id = number_int fk 10000 99999 g;
          title = music_songName fk (g + 1);
          year = show_int (date_past_year fk 30 (g + 2))
      in case image_urlPicsum fk (g + 3) of
           Inl e \<Rightarrow> Inl e
         | Inr coverUrl \<Rightarrow>
             Inr (\<lparr>al_id = id,
                   al_title = title,
                   al_year = year,
                   al_coverUrl = coverUrl,
                   al_artist = \<lparr>s_id = a_id artist,
                                s_name = a_name artist,
                                s_profileImageUrl = a_profileImageUrl artist,
                                s_genre = a_genre artist\<rparr>,
                   al_createdAt = ServerTimestamp\<rparr>, g + 4))"

definition makeFakeReview :: "runtime \<Rightarrow> faker \<Rightarrow> string \<Rightarrow> int \<Rightarrow> nat \<Rightarrow> fake_review \<times> nat" where
  "makeFakeReview rt fk userId albumId g =
     (\<lparr>rv_content = lorem_paragraph fk g,
       rv_score = number_int fk 0 100 (g + 1),
       rv_isLowScore = False,
       rv_albumId = albumId,
       rv_userId = userId,
       rv_firebaseUserId = userId,
       rv_likesCount = number_int fk 0 50 (g + 2),
       rv_createdAt = date_now_iso rt (g + 3),
       rv_updatedAt = date_now_iso rt (g + 4)\<rparr>, g + 5)"

text \<open>
  \<^verbatim>\<open>faker.helpers.arrayElement(albums)\<close> followed by \<^verbatim>\<open>album.id\<close>: the library throws
  on an empty array and otherwise reads the element at a random index (drawn only when
  there is more than one element); reading \<^verbatim>\<open>.id\<close> of an element that is not there
  throws as well.
\<close>

definition arrayElement :: "faker \<Rightarrow> 'a list \<Rightarrow> nat \<Rightarrow> exn + 'a \<times> nat" where
  "arrayElement fk xs g =
     (if xs = [] then Inl (Exn ''Error: Cannot get value from empty dataset.'')
      else if length xs > 1
      then (let i = number_int fk 0 (int (length xs) - 1) g
            in if 0 \<le> i \<and> i < int (length xs) then Inr (xs ! nat i, g + 1)
               else Inl (Exn ''TypeError: Cannot read properties of undefined (reading 'id')''))
      else Inr (xs ! 0, g))"


section \<open>The seed endpoint\<close>

subsection \<open>Counted loops\<close>

text \<open>
  \<^verbatim>\<open>for (let i = 0; i < n; i++) step\<close>, with the bound a JavaScript number and a
  step that may throw. \<open>trips n\<close> is the number of naturals below \<open>n\<close>.
\<close>

fun trips :: "jsnum \<Rightarrow> nat" where
  "trips NaN = 0"
| "trips (Fin q) = nat \<lceil>q\<rceil>"

function for_loop :: "jsnum \<Rightarrow> nat \<Rightarrow> ('a \<Rightarrow> exn + 'a) \<Rightarrow> 'a \<Rightarrow> exn + 'a" where
  "for_loop n i step s =
     (if js_lt (Fin (of_nat i)) n
      then (case step s of Inl e \<Rightarrow> Inl e | Inr s' \<Rightarrow> for_loop n (Suc i) step s')
      else Inr s)"
  by pat_completeness auto
termination
proof (relation "measure (\<lambda>(n, i, step, s). trips n - i)")
  show "wf (measure (\<lambda>(n, i, step :: 'a \<Rightarrow> exn + 'a, s). trips n - i))"
    by simp
next
  fix n i and step :: "'a \<Rightarrow> exn + 'a" and s s' :: 'a
  assume lt: "js_lt (Fin (of_nat i)) n"
  then obtain q where n: "n = Fin q" and "of_nat i < q"
    by (cases n) auto
  then have "int i < \<lceil>q\<rceil>"
    by (metis less_ceiling_iff of_int_of_nat_eq)
  then have "i < trips n"
    using n by simp
  then show "((n, Suc i, step, s'), (n, i, step, s)) \<in> measure (\<lambda>(n, i, step, s). trips n - i)"
    by simp
qed

declare for_loop.simps [simp del]

subsection \<open>Effective counts\<close>

definition qparam :: "request \<Rightarrow> string \<Rightarrow> jsval" where
  "qparam req k = get_prop (JObj (query req)) k"

definition bparam :: "request \<Rightarrow> string \<Rightarrow> jsval" where
  "bparam req k = get_prop (body req) k"

definition capped :: "runtime \<Rightarrow> jsval \<Rightarrow> rat \<Rightarrow> exn + jsnum" where
  "capped rt v cap = (case Number rt v of Inl e \<Rightarrow> Inl e | Inr n \<Rightarrow> Inr (Math_min n (Fin cap)))"

definition usersCount :: "runtime \<Rightarrow> request \<Rightarrow> exn + jsnum" where
  "usersCount rt req =
     capped rt (js_or (js_or (qparam req ''users'') (bparam req ''users'')) (JNum (Fin 20))) 500"

definition artistsCount :: "runtime \<Rightarrow> request \<Rightarrow> exn + jsnum" where
  "artistsCount rt req =
     capped rt (js_or (js_or (qparam req ''artists'') (bparam req ''artists'')) (JNum (Fin 8))) 200"

definition albumsPerArtist :: "runtime \<Rightarrow> request \<Rightarrow> exn + jsnum" where
  "albumsPerArtist rt req = capped rt (js_or (qparam req ''albumsPerArtist'') (JNum (Fin 3))) 20"

definition reviewsPerUser :: "runtime \<Rightarrow> request \<Rightarrow> exn + jsnum" where
  "reviewsPerUser rt req = capped rt (js_or (qparam req ''reviewsPerUser'') (JNum (Fin 2))) 20"

subsection \<open>Generation\<close>

record generated =
  users :: "fake_user list"
  artists :: "fake_artist list"
  albums :: "fake_album list"
  reviews :: "fake_review list"

definition user_step :: "faker \<Rightarrow> fake_user list \<times> nat \<Rightarrow> exn + fake_user list \<times> nat" where
  "user_step fk = (\<lambda>(us, g). case makeFakeUser fk g of (u, g') \<Rightarrow> Inr (us @ [u], g'))"

definition album_step :: "faker \<Rightarrow> fake_artist \<Rightarrow> fake_album list \<times> nat \<Rightarrow> exn + fake_album list \<times> nat" where
  "album_step fk art =
     (\<lambda>(als, g). case makeFakeAlbum fk art g of
                    Inl e \<Rightarrow> Inl e
                  | Inr (al, g') \<Rightarrow> Inr (als @ [al], g'))"

definition artist_step ::
  "faker \<Rightarrow> jsnum \<Rightarrow> fake_artist list \<times> fake_album list \<times> nat
     \<Rightarrow> exn + fake_artist list \<times> fake_album list \<times> nat" where
  "artist_step fk perArtist =
     (\<lambda>(arts, als, g).
        case makeFakeArtist fk g of
          Inl e \<Rightarrow> Inl e
        | Inr (art, g') \<Rightarrow>
            (case for_loop perArtist 0 (album_step fk art) (als, g') of
               Inl e \<Rightarrow> Inl e
             | Inr (als', g'') \<Rightarrow> Inr (arts @ [art], als', g'')))"

definition review_step ::
  "runtime \<Rightarrow> faker \<Rightarrow> fake_album list \<Rightarrow> fake_user
     \<Rightarrow> fake_review list \<times> nat \<Rightarrow> exn + fake_review list \<times> nat" where
  "review_step rt fk als u =
     (\<lambda>(rvs, g).
        case arrayElement fk als g of
          Inl e \<Rightarrow> Inl e
        | Inr (album, g') \<Rightarrow>
            (case makeFakeReview rt fk (u_id u) (al_id album) g' of
               (rv, g'') \<Rightarrow> Inr (rvs @ [rv], g'')))"

fun review_loop ::
  "runtime \<Rightarrow> faker \<Rightarrow> jsnum \<Rightarrow> fake_album list \<Rightarrow> fake_user list
     \<Rightarrow> fake_review list \<times> nat \<Rightarrow> exn + fake_review list \<times> nat" where
  "review_loop rt fk perUser als [] st = Inr st"
| "review_loop rt fk perUser als (u # us) st =
     (case for_loop perUser 0 (review_step rt fk als u) st of
        Inl e \<Rightarrow> Inl e
      | Inr st' \<Rightarrow> review_loop rt fk perUser als us st')"

definition generate ::
  "runtime \<Rightarrow> faker \<Rightarrow> jsnum \<Rightarrow> jsnum \<Rightarrow> jsnum \<Rightarrow> jsnum \<Rightarrow> nat \<Rightarrow> exn + generated" where
  "generate rt fk nUsers nArtists perArtist perUser g =
     (case for_loop nUsers 0 (user_step fk) ([], g) of
        Inl e \<Rightarrow> Inl e
      | Inr (us, g1) \<Rightarrow>
          (case for_loop nArtists 0 (artist_step fk perArtist) ([], [], g1) of
             Inl e \<Rightarrow> Inl e
           | Inr (arts, als, g2) \<Rightarrow>
               (case review_loop rt fk perUser als us ([], g2) of
                  Inl e \<Rightarrow> Inl e
                | Inr (rvs, g3) \<Rightarrow>
                    Inr \<lparr>users = us, artists = arts, albums = als, reviews = rvs\<rparr>)))"

subsection \<open>Batched writes\<close>

record seed_op =
  op_ref :: docref
  op_data :: jsval

definition BATCH_SIZE :: nat where
  "BATCH_SIZE = 500"

text \<open>
  \<^verbatim>\<open>commitBatchOps\<close>: the loop over \<open>ops\<close> with the open batch and its operation
  count, then the commit of what is left.
\<close>

fun commit_loop ::
  "'s gateway \<Rightarrow> seed_op list \<Rightarrow> batch_write list \<Rightarrow> nat \<Rightarrow> 's world \<Rightarrow> (exn + unit) \<times> 's world" where
  "commit_loop gw [] batch count w =
     (if count > 0 then batch_commit gw batch w else (Inr (), w))"
| "commit_loop gw (x # ops) batch count w =
     (let batch' = batch @ [BatchSet (op_ref x) (op_data x) True];
          count' = count + 1
      in if count' \<ge> BATCH_SIZE
         then (case batch_commit gw batch' w of
                 (Inl e, w') \<Rightarrow> (Inl e, w')
               | (Inr u, w') \<Rightarrow> commit_loop gw ops [] 0 w')
         else commit_loop gw ops batch' count' w)"

definition commitBatchOps :: "'s gateway \<Rightarrow> seed_op list \<Rightarrow> 's world \<Rightarrow> (exn + unit) \<times> 's world" where
  "commitBatchOps gw ops w = commit_loop gw ops [] 0 w"

subsection \<open>Documents written\<close>

definition int_num :: "int \<Rightarrow> jsval" where
  "int_num i = JNum (Fin (of_int i))"

definition user_payload :: "fake_user \<Rightarrow> jsval" where
  "user_payload u = JObj
     [(''id'', JStr (u_id u)),
      (''username'', JStr (u_username u)),
      (''email'', JStr (u_email u)),
      (''name'', JStr (u_name u)),
      (''bio'', JStr (u_bio u)),
      (''profileImageUrl'', JStr (u_profileImageUrl u)),
      (''avatarUrl'', JStr (u_avatarUrl u)),
      (''usernameLowercase'', JStr (u_usernameLowercase u)),
      (''nameLowercase'', JStr (u_nameLowercase u)),
      (''followers'', int_num 0),
      (''followersCount'', int_num 0),
      (''following'', int_num 0),
      (''followingCount'', int_num 0),
      (''createdAt'', ServerTimestamp)]"

definition artist_data :: "fake_artist \<Rightarrow> jsval" where
  "artist_data a = JObj
     [(''id'', int_num (a_id a)),
      (''name'', JStr (a_name a)),
      (''profileImageUrl'', JStr (a_profileImageUrl a)),
      (''genre'', JStr (a_genre a)),
      (''createdAt'', a_createdAt a)]"

definition snapshot_data :: "artist_snapshot \<Rightarrow> jsval" where
  "snapshot_data s = JObj
     [(''id'', int_num (s_id s)),
      (''name'', JStr (s_name s)),
      (''profileImageUrl'', JStr (s_profileImageUrl s)),
      (''genre'', JStr (s_genre s))]"

definition album_payload :: "fake_album \<Rightarrow> jsval" where
  "album_payload al = JObj
     [(''id'', int_num (al_id al)),
      (''title'', JStr (al_title al)),
      (''year'', JStr (al_year al)),
      (''coverUrl'', JStr (al_coverUrl al)),
      (''artist'', snapshot_data (al_artist al)),
      (''createdAt'', ServerTimestamp)]"

definition review_data :: "fake_review \<Rightarrow> jsval" where
  "review_data rv = JObj
     [(''content'', JStr (rv_content rv)),
      (''score'', int_num (rv_score rv)),
      (''isLowScore'', JBool (rv_isLowScore rv)),
      (''albumId'', int_num (rv_albumId rv)),
      (''userId'', JStr (rv_userId rv)),
      (''firebaseUserId'', JStr (rv_firebaseUserId rv)),
      (''likesCount'', int_num (rv_likesCount rv)),
      (''createdAt'', JStr (rv_createdAt rv)),
      (''updatedAt'', JStr (rv_updatedAt rv))]"

definition user_op :: "fake_user \<Rightarrow> seed_op" where
  "user_op u = \<lparr>op_ref = DocRef ''users'' (JStr (u_id u)), op_data = user_payload u\<rparr>"

definition artist_op :: "fake_artist \<Rightarrow> seed_op" where
  "artist_op a = \<lparr>op_ref = DocRef ''artists'' (JStr (show_int (a_id a))), op_data = artist_data a\<rparr>"

definition album_op :: "fake_album \<Rightarrow> seed_op" where
  "album_op al = \<lparr>op_ref = DocRef ''albums'' (JStr (show_int (al_id al))), op_data = album_payload al\<rparr>"

definition review_op :: "fake_review \<Rightarrow> seed_op" where
  "review_op rv = \<lparr>op_ref = AutoId ''reviews'', op_data = review_data rv\<rparr>"

definition seed_ops :: "generated \<Rightarrow> seed_op list" where
  "seed_ops gen =
     map user_op (users gen) @ map artist_op (artists gen)
       @ map album_op (albums gen) @ map review_op (reviews gen)"

subsection \<open>The handler\<close>

definition error_json :: "string \<Rightarrow> jsval" where
  "error_json msg = JObj [(''ok'', JBool False), (''error'', JStr msg)]"

definition nat_num :: "nat \<Rightarrow> jsval" where
  "nat_num n = JNum (Fin (of_nat n))"

definition seeded_json :: "generated \<Rightarrow> jsval" where
  "seeded_json gen = JObj
     [(''ok'', JBool True),
      (''message'', JStr ''Seeding completed''),
      (''counts'', JObj
         [(''users'', nat_num (length (users gen))),
          (''artists'', nat_num (length (artists gen))),
          (''albums'', nat_num (length (albums gen))),
          (''reviews'', nat_num (length (reviews gen)))])]"

text \<open>Lines 107 to 133: the four counts, then the entities; any throw ends it.\<close>

definition seed_generate :: "runtime \<Rightarrow> faker \<Rightarrow> request \<Rightarrow> nat \<Rightarrow> exn + generated" where
  "seed_generate rt fk req g =
     (case usersCount rt req of Inl e \<Rightarrow> Inl e | Inr nUsers \<Rightarrow>
       (case artistsCount rt req of Inl e \<Rightarrow> Inl e | Inr nArtists \<Rightarrow>
         (case albumsPerArtist rt req of Inl e \<Rightarrow> Inl e | Inr perArtist \<Rightarrow>
           (case reviewsPerUser rt req of Inl e \<Rightarrow> Inl e | Inr perUser \<Rightarrow>
              generate rt fk nUsers nArtists perArtist perUser g))))"

definition seedData ::
  "runtime \<Rightarrow> faker \<Rightarrow> 's gateway \<Rightarrow> deployment \<Rightarrow> request \<Rightarrow> nat \<Rightarrow> 's world \<Rightarrow> response \<times> 's world" where
  "seedData rt fk gw d req g w =
     (if unauthorized d (seedData_key req)
      then (\<lparr>status = 401, json = error_json ''Unauthorized (invalid key)''\<rparr>, w)
      else (case seed_generate rt fk req g of
              Inl (Exn msg) \<Rightarrow> (\<lparr>status = 500, json = error_json msg\<rparr>, w)
            | Inr gen \<Rightarrow>
                (case commitBatchOps gw (seed_ops gen) w of
                   (Inl (Exn msg), w') \<Rightarrow> (\<lparr>status = 500, json = error_json msg\<rparr>, w')
                 | (Inr u, w') \<Rightarrow> (\<lparr>status = 200, json = seeded_json gen\<rparr>, w'))))"

section \<open>The user-update endpoint\<close>

definition updateUser_id :: "request \<Rightarrow> jsval" where
  "updateUser_id req = js_or (bparam req ''id'') (qparam req ''id'')"

definition updateUser_updates :: "request \<Rightarrow> jsval" where
  "updateUser_updates req = js_or (bparam req ''updates'') (qparam req ''updates'')"

definition bad_request :: "request \<Rightarrow> bool" where
  "bad_request req =
     (\<not> truthy (updateUser_id req) \<or> \<not> truthy (updateUser_updates req)
      \<or> typeof (updateUser_updates req) \<noteq> ''object'')"

text \<open>\<^verbatim>\<open>v ? String(v).toLowerCase() : undefined\<close>\<close>

definition lowercase_of :: "runtime \<Rightarrow> jsval \<Rightarrow> exn + jsval" where
  "lowercase_of rt v =
     (if truthy v
      then (case String rt v of Inl e \<Rightarrow> Inl e | Inr s \<Rightarrow> Inr (JStr (toLowerCase s)))
      else Inr JUndefined)"

text \<open>The object literal of lines 246 to 251, its properties evaluated in order.\<close>

definition update_payload :: "runtime \<Rightarrow> jsval \<Rightarrow> exn + jsval" where
  "update_payload rt updates =
     (case lowercase_of rt (get_prop updates ''username'') of Inl e \<Rightarrow> Inl e | Inr ul \<Rightarrow>
       (case lowercase_of rt (get_prop updates ''name'') of Inl e \<Rightarrow> Inl e | Inr nl \<Rightarrow>
          Inr (JObj (set_prop (set_prop (set_prop (spread updates)
                 ''usernameLowercase'' ul) ''nameLowercase'' nl) ''updatedAt'' ServerTimestamp))))"

definition updateUser ::
  "runtime \<Rightarrow> 's gateway \<Rightarrow> deployment \<Rightarrow> request \<Rightarrow> 's world \<Rightarrow> response \<times> 's world" where
  "updateUser rt gw d req w =
     (if unauthorized d (updateUser_key req)
      then (\<lparr>status = 401, json = error_json ''Unauthorized (invalid key)''\<rparr>, w)
      else if bad_request req
      then (\<lparr>status = 400, json = error_json ''Bad request: missing id or updates''\<rparr>, w)
      else (let userRef = DocRef ''users'' (updateUser_id req)
            in case update_payload rt (updateUser_updates req) of
                 Inl (Exn msg) \<Rightarrow> (\<lparr>status = 500, json = error_json msg\<rparr>, w)
               | Inr payload \<Rightarrow>
                   (case ref_update gw userRef payload w of
                      (Inl (Exn msg), w') \<Rightarrow> (\<lparr>status = 500, json = error_json msg\<rparr>, w')
                    | (Inr u, w') \<Rightarrow>
                        (case ref_get gw userRef w' of
                           (Inl (Exn msg), w'') \<Rightarrow> (\<lparr>status = 500, json = error_json msg\<rparr>, w'')
                         | (Inr doc, w'') \<Rightarrow>
                             (\<lparr>status = 200, json = JObj [(''ok'', JBool True), (''user'', doc)]\<rparr>, w'')))))"


section \<open>Reference definitions\<close>

text \<open>
  The precedence the interface description gives for the secret of both endpoints:
  query parameter, then header, then body field, the first non-empty one.
\<close>

definition documented_key :: "request \<Rightarrow> jsval" where
  "documented_key req =
     (if truthy (qparam req ''key'') then qparam req ''key''
      else if truthy (req_get req ''x-seed-key'') then req_get req ''x-seed-key''
      else if truthy (bparam req ''key'') then bparam req ''key''
      else JStr [])"

text \<open>\<open>clamp lo hi x\<close>, the range restriction the description states for the counts.\<close>

definition clamp :: "rat \<Rightarrow> rat \<Rightarrow> rat \<Rightarrow> rat" where
  "clamp lo hi x = max lo (min hi x)"

text \<open>
  The value of a count parameter as the interface description has it, from the query
  or else from the body, and what the description of a count amounts to where the code
  agrees with it: a value that is missing (or falsy in another way) gives the default;
  any other value goes through \<^verbatim>\<open>Number\<close> and is bounded above by the cap; so a
  value that converts to an integer from 1 on gives that integer clamped into 1..cap.
\<close>

definition requested :: "request \<Rightarrow> string \<Rightarrow> jsval" where
  "requested req k = js_or (qparam req k) (bparam req k)"

definition count_rule :: "runtime \<Rightarrow> jsval \<Rightarrow> rat \<Rightarrow> rat \<Rightarrow> exn + jsnum \<Rightarrow> bool" where
  "count_rule rt v dflt cap c =
     ((\<not> truthy v \<longrightarrow> c = Inr (Fin dflt))
      \<and> (\<forall>x. truthy v \<and> Number rt v = Inr x \<longrightarrow> c = Inr (Math_min x (Fin cap)))
      \<and> (\<forall>n::int. truthy v \<and> 1 \<le> n \<and> Number rt v = Inr (Fin (of_int n)) \<longrightarrow>
            c = Inr (Fin (clamp 1 cap (of_int n)))))"

text \<open>The characters a generated username is made of: a to z, 0 to 9 and the underscore.\<close>

definition lower_word_char :: "char \<Rightarrow> bool" where
  "lower_word_char c =
     (let n = (of_char c :: nat)
      in (97 \<le> n \<and> n \<le> 122) \<or> (48 \<le> n \<and> n \<le> 57) \<or> n = 95)"

text \<open>A field that neither the body nor the query carries; a value that is a non-null object.\<close>

definition missing :: "request \<Rightarrow> string \<Rightarrow> bool" where
  "missing req k = (bparam req k = JUndefined \<and> qparam req k = JUndefined)"

fun is_object :: "jsval \<Rightarrow> bool" where
  "is_object (JObj kvs) = True"
| "is_object (JArr xs) = True"
| "is_object ServerTimestamp = True"
| "is_object v = False"

text \<open>The calls a handler added to those issued before, and the documents they write.\<close>

fun writes_of :: "call list \<Rightarrow> batch_write list" where
  "writes_of [] = []"
| "writes_of (Commit b # cs) = b @ writes_of cs"
| "writes_of (c # cs) = writes_of cs"

fun written_to :: "string \<Rightarrow> batch_write \<Rightarrow> bool" where
  "written_to coll (BatchSet (DocRef c k) doc m) = (c = coll)"
| "written_to coll (BatchSet (AutoId c) doc m) = (c = coll)"

fun write_doc :: "batch_write \<Rightarrow> jsval" where
  "write_doc (BatchSet r doc m) = doc"


definition docs_written :: "string \<Rightarrow> call list \<Rightarrow> jsval list" where
  "docs_written coll cs = map write_doc (filter (written_to coll) (writes_of cs))"

text \<open>\<^verbatim>\<open>batch.set(ref, data, { merge: true })\<close> for one element of \<open>ops\<close>.\<close>

definition set_merge :: "seed_op \<Rightarrow> batch_write" where
  "set_merge x = BatchSet (op_ref x) (op_data x) True"

text \<open>Committing batches one after the other, each on the store the one before left.\<close>

fun commit_all :: "'s gateway \<Rightarrow> batch_write list list \<Rightarrow> 's \<Rightarrow> exn + 's" where
  "commit_all gw [] s = Inr s"
| "commit_all gw (b # bs) s =
     (case gw_commit gw s b of Inl e \<Rightarrow> Inl e | Inr s' \<Rightarrow> commit_all gw bs s')"

text \<open>
  The Storage Gateway's update and read of one document belong to the database client
  and are not in the repository. Modelled from the spec: an update is a partial update
  of an existing document, which sets the fields of the mapping, leaves every other
  stored field untouched and fails when the document does not exist, and a read
  returns the stored document. On a field handed over as \<^verbatim>\<open>undefined\<close> the model
  follows the client and not the spec: at its default settings, which
  \<^verbatim>\<open>index.js\<close> leaves as they are, the client throws on a mapping that holds
  \<^verbatim>\<open>undefined\<close> anywhere, before anything is sent (the text of the error is
  shortened here).
\<close>

fun holds_undefined :: "jsval \<Rightarrow> bool" where
  "holds_undefined JUndefined = True"
| "holds_undefined (JObj kvs) = list_ex holds_undefined (map snd kvs)"
| "holds_undefined (JArr xs) = list_ex holds_undefined xs"
| "holds_undefined v = False"

definition merge_fields :: "(string \<times> jsval) list \<Rightarrow> (string \<times> jsval) list \<Rightarrow> (string \<times> jsval) list" where
  "merge_fields old new = foldl (\<lambda>doc (k, v). set_prop doc k v) old new"

definition client_update :: "(docref \<Rightarrow> jsval option) \<Rightarrow> docref \<Rightarrow> jsval \<Rightarrow> exn + (docref \<Rightarrow> jsval option)" where
  "client_update s r d =
     (if holds_undefined d
      then Inl (Exn ''Error: Cannot use undefined as a Firestore value'')
      else (case s r of
              None \<Rightarrow> Inl (Exn ''Error: 5 NOT_FOUND: No document to update'')
            | Some old \<Rightarrow> Inr (s(r \<mapsto> JObj (merge_fields (spread old) (spread d))))))"

definition client_read :: "(docref \<Rightarrow> jsval option) \<Rightarrow> docref \<Rightarrow> exn + jsval" where
  "client_read s r = Inr (case s r of None \<Rightarrow> JUndefined | Some doc \<Rightarrow> doc)"

section \<open>Example inputs\<close>

text \<open>
  A runtime that reads the empty string and unsigned decimal integers as JavaScript
  does, and is used on such strings and on \<^verbatim>\<open>"abc"\<close> only; a fake-data source with
  fixed answers; a gateway that accepts every call; the client's update and read over
  a map of documents; a deployment without configured key.
\<close>

definition example_runtime :: runtime where
  "example_runtime =
     \<lparr>string_to_number =
        (\<lambda>s. if \<forall>c \<in> set s. 48 \<le> (of_char c :: nat) \<and> (of_char c :: nat) \<le> 57
             then Fin (of_nat (foldl (\<lambda>n c. 10 * n + (of_char c - 48)) 0 s)) else NaN),
      number_to_string = (\<lambda>n. case n of NaN \<Rightarrow> ''NaN'' | Fin q \<Rightarrow> show_int \<lfloor>q\<rfloor>),
      object_to_number = (\<lambda>v. Inr NaN),
      object_to_string = (\<lambda>v. Inr ''[object Object]''),
      date_now_iso = (\<lambda>t. ''2024-01-01T00:00:00.000Z'')\<rparr>"

definition example_faker :: faker where
  "example_faker =
     \<lparr>string_uuid = (\<lambda>g. ''user-'' @ show_nat g),
      internet_userName = (\<lambda>g. ''Ann.Lee42''),
      person_fullName = (\<lambda>g. ''Ann Lee''),
      image_avatar = (\<lambda>g. ''https://img/a.png''),
      internet_email = (\<lambda>g. ''ann@example.org''),
      lorem_sentence = (\<lambda>g. ''Lorem.''),
      lorem_paragraph = (\<lambda>g. ''Lorem ipsum.''),
      music_artist = (\<lambda>g. ''Band''),
      music_genre = (\<lambda>g. ''Rock''),
      music_songName = (\<lambda>g. ''Song''),
      number_int = (\<lambda>lo hi g. lo),
      date_past_year = (\<lambda>years g. 2001)\<rparr>"

definition accepting_gateway :: "unit gateway" where
  "accepting_gateway =
     \<lparr>gw_commit = (\<lambda>s b. Inr ()), gw_update = (\<lambda>s r d. Inr ()), gw_get = (\<lambda>s r. Inr JNull)\<rparr>"

definition document_gateway :: "(docref \<Rightarrow> jsval option) gateway" where
  "document_gateway =
     \<lparr>gw_commit = (\<lambda>s b. Inr s), gw_update = client_update, gw_get = client_read\<rparr>"

definition dev_deployment :: deployment where
  "dev_deployment = \<lparr>config_seed_key = None, env_SEED_KEY = None\<rparr>"

definition fresh_world :: "unit world" where
  "fresh_world = \<lparr>store = (), issued = []\<rparr>"

definition wrong_key_request :: request where
  "wrong_key_request =
     \<lparr>query = [(''key'', JStr ''guess'')], headers = [],
      body = JObj [(''id'', JStr ''u1''), (''updates'', JObj [(''bio'', JStr ''x'')])]\<rparr>"

definition two_keys_request :: request where
  "two_keys_request =
     \<lparr>query = [(''key'', JStr ''guess'')], headers = [],
      body = JObj [(''key'', JStr ''dev-seed-key'')]\<rparr>"

text \<open>
  Seed requests. Since no artist can be generated, a request is answered 200 only
  when it asks for no artist, and for no review unless it asks for no user.
\<close>

definition small_seed_request :: request where
  "small_seed_request =
     \<lparr>query = [(''key'', JStr ''dev-seed-key''), (''users'', JStr ''1''), (''artists'', JStr ''0''),
               (''reviewsPerUser'', JStr ''0'')],
      headers = [], body = JUndefined\<rparr>"

definition example_user_at :: "nat \<Rightarrow> fake_user" where
  "example_user_at g =
     \<lparr>u_id = ''user-'' @ show_nat g, u_username = ''annlee42'', u_email = ''ann@example.org'',
      u_name = ''Ann Lee'', u_bio = ''Lorem.'', u_profileImageUrl = ''https://img/a.png'',
      u_avatarUrl = ''https://img/a.png'', u_usernameLowercase = ''annlee42'',
      u_nameLowercase = ''ann lee'', u_followers = 0, u_followersCount = 0,
      u_following = 0, u_followingCount = 0,
      u_createdAt = ServerTimestamp, u_updatedAt = ServerTimestamp\<rparr>"

definition example_user :: fake_user where
  "example_user =
     \<lparr>u_id = ''user-0'', u_username = ''annlee42'', u_email = ''ann@example.org'',
      u_name = ''Ann Lee'', u_bio = ''Lorem.'', u_profileImageUrl = ''https://img/a.png'',
      u_avatarUrl = ''https://img/a.png'', u_usernameLowercase = ''annlee42'',
      u_nameLowercase = ''ann lee'', u_followers = 0, u_followersCount = 0,
      u_following = 0, u_followingCount = 0,
      u_createdAt = ServerTimestamp, u_updatedAt = ServerTimestamp\<rparr>"

definition only_users :: "fake_user list \<Rightarrow> generated" where
  "only_users us = \<lparr>users = us, artists = [], albums = [], reviews = []\<rparr>"

definition small_generated :: generated where
  "small_generated = only_users [example_user]"

definition negative_users_request :: request where
  "negative_users_request =
     \<lparr>query = [(''artists'', JStr ''0'')], headers = [],
      body = JObj [(''key'', JStr ''dev-seed-key''), (''users'', JNum (Fin (- 3)))]\<rparr>"

definition abc_users_request :: request where
  "abc_users_request =
     \<lparr>query = [(''key'', JStr ''dev-seed-key''), (''users'', JStr ''abc''), (''artists'', JStr ''0'')],
      headers = [], body = JUndefined\<rparr>"

definition body_only_request :: request where
  "body_only_request =
     \<lparr>query = [(''key'', JStr ''dev-seed-key''), (''users'', JStr ''0''), (''artists'', JStr ''0'')],
      headers = [], body = JObj [(''albumsPerArtist'', JNum (Fin 5))]\<rparr>"

definition fractional_users_request :: request where
  "fractional_users_request =
     \<lparr>query = [(''artists'', JStr ''0''), (''reviewsPerUser'', JStr ''0'')], headers = [],
      body = JObj [(''key'', JStr ''dev-seed-key''), (''users'', JNum (Fin (5 / 2)))]\<rparr>"

definition default_seed_request :: request where
  "default_seed_request =
     \<lparr>query = [(''key'', JStr ''dev-seed-key'')], headers = [], body = JUndefined\<rparr>"

definition one_review_request :: request where
  "one_review_request =
     \<lparr>query = [(''key'', JStr ''dev-seed-key''), (''users'', JStr ''1''), (''artists'', JStr ''0''),
               (''reviewsPerUser'', JStr ''1'')],
      headers = [], body = JUndefined\<rparr>"

text \<open>Requests to updateUser, and a store that holds the user \<open>u1\<close>.\<close>

definition no_id_request :: request where
  "no_id_request =
     \<lparr>query = [], headers = [(''X-Seed-Key'', ''dev-seed-key'')],
      body = JObj [(''updates'', JObj [(''bio'', JStr ''x'')])]\<rparr>"

definition stored_user :: "(string \<times> jsval) list" where
  "stored_user =
     [(''id'', JStr ''u1''), (''username'', JStr ''bar''), (''usernameLowercase'', JStr ''bar''),
      (''name'', JStr ''Bar''), (''nameLowercase'', JStr ''bar'')]"

definition user_store :: "docref \<Rightarrow> jsval option" where
  "user_store = [DocRef ''users'' (JStr ''u1'') \<mapsto> JObj stored_user]"

definition user_world :: "(docref \<Rightarrow> jsval option) world" where
  "user_world = \<lparr>store = user_store, issued = []\<rparr>"

definition rename_request :: request where
  "rename_request =
     \<lparr>query = [], headers = [],
      body = JObj [(''key'', JStr ''dev-seed-key''), (''id'', JStr ''u1''),
                   (''updates'', JObj [(''username'', JStr ''Foo'')])]\<rparr>"

definition rename_payload :: jsval where
  "rename_payload =
     JObj [(''username'', JStr ''Foo''), (''usernameLowercase'', JStr ''foo''),
           (''nameLowercase'', JUndefined), (''updatedAt'', ServerTimestamp)]"

section \<open>Authorization\<close>

lemma SEED_KEY_string: "\<exists>s. s \<noteq> [] \<and> SEED_KEY d = JStr s"
  by (cases "config_seed_key d"; cases "env_SEED_KEY d")
     (auto simp: SEED_KEY_def js_or_def opt_str_def)

lemma unauthorized_iff:
  "unauthorized d key \<longleftrightarrow> \<not> (\<exists>s. s \<noteq> [] \<and> key = JStr s \<and> SEED_KEY d = JStr s)"
proof -
  obtain k where k: "k \<noteq> []" "SEED_KEY d = JStr k"
    using SEED_KEY_string by blast
  show ?thesis
    by (cases key) (auto simp: unauthorized_def k)
qed

lemma dev_seed_key: "SEED_KEY dev_deployment = JStr ''dev-seed-key''"
  by (simp add: SEED_KEY_def dev_deployment_def opt_str_def js_or_def)

lemma wrong_key_seed: "seedData_key wrong_key_request = JStr ''guess''"
  by (simp add: seedData_key_def wrong_key_request_def js_or_def js_and_def req_get_def)

lemma wrong_key_update: "updateUser_key wrong_key_request = JStr ''guess''"
  by (simp add: updateUser_key_def wrong_key_request_def js_or_def js_and_def req_get_def)

text \<open>
  C1. A request to seedData or to updateUser whose supplied secret is not a non-empty
  string equal to the server key (so: empty, or different from it) is answered with
  status 401 and \<^verbatim>\<open>ok: false\<close>, and the handler returns the world it was given: no
  call to the storage gateway is issued and the store is the same.
\<close>

theorem invalid_secret_rejected:
  "(\<not> (\<exists>s. s \<noteq> [] \<and> seedData_key req = JStr s \<and> SEED_KEY d = JStr s) \<longrightarrow>
      seedData rt fk gw d req g w =
        (\<lparr>status = 401,
          json = JObj [(''ok'', JBool False), (''error'', JStr ''Unauthorized (invalid key)'')]\<rparr>, w))
   \<and> (\<not> (\<exists>s. s \<noteq> [] \<and> updateUser_key req = JStr s \<and> SEED_KEY d = JStr s) \<longrightarrow>
      updateUser rt gw d req w =
        (\<lparr>status = 401,
          json = JObj [(''ok'', JBool False), (''error'', JStr ''Unauthorized (invalid key)'')]\<rparr>, w))"
  by (simp add: seedData_def updateUser_def unauthorized_iff error_json_def)

theorem invalid_secret_rejected_witness:
  "seedData_key wrong_key_request = JStr ''guess''
   \<and> updateUser_key wrong_key_request = JStr ''guess''
   \<and> SEED_KEY dev_deployment = JStr ''dev-seed-key''
   \<and> seedData example_runtime example_faker accepting_gateway dev_deployment wrong_key_request 0 fresh_world =
        (\<lparr>status = 401,
          json = JObj [(''ok'', JBool False), (''error'', JStr ''Unauthorized (invalid key)'')]\<rparr>, fresh_world)
   \<and> updateUser example_runtime accepting_gateway dev_deployment wrong_key_request fresh_world =
        (\<lparr>status = 401,
          json = JObj [(''ok'', JBool False), (''error'', JStr ''Unauthorized (invalid key)'')]\<rparr>, fresh_world)"
  using invalid_secret_rejected [of wrong_key_request dev_deployment example_runtime example_faker
      accepting_gateway 0 fresh_world]
  by (simp add: dev_seed_key wrong_key_seed wrong_key_update)

lemma seedData_key_eq:
  "seedData_key req =
     (if truthy (qparam req ''key'') then qparam req ''key''
      else if truthy (req_get req ''x-seed-key'') then req_get req ''x-seed-key''
      else if truthy (bparam req ''key'') then bparam req ''key''
      else JStr [])"
  by (cases "body req") (auto simp: seedData_key_def js_or_def js_and_def qparam_def bparam_def)

text \<open>
  C7, as stated, fails: in a request to updateUser that carries one secret in the body
  and another in the query, the body field is compared, not the query parameter.
\<close>

theorem key_precedence_counterexample:
  "updateUser_key two_keys_request = JStr ''dev-seed-key''
   \<and> documented_key two_keys_request = JStr ''guess''
   \<and> updateUser_key two_keys_request \<noteq> documented_key two_keys_request"
  by (simp add: updateUser_key_def documented_key_def two_keys_request_def js_or_def qparam_def
      bparam_def req_get_def)

text \<open>
  C7, amended. The secret of seedData is the key query parameter if non-empty,
  otherwise the x-seed-key header if non-empty, otherwise the key body field if
  non-empty, otherwise the empty string. The secret of updateUser is the key body field
  if non-empty, otherwise the key query parameter if non-empty, otherwise the x-seed-key
  header if non-empty, otherwise the empty string.
\<close>

theorem key_precedence:
  "seedData_key req = documented_key req
   \<and> updateUser_key req =
       (if truthy (bparam req ''key'') then bparam req ''key''
        else if truthy (qparam req ''key'') then qparam req ''key''
        else if truthy (req_get req ''x-seed-key'') then req_get req ''x-seed-key''
        else JStr [])"
  by (simp add: seedData_key_eq documented_key_def updateUser_key_def js_or_def qparam_def bparam_def)

theorem key_precedence_witness:
  "seedData_key two_keys_request = JStr ''guess''
   \<and> updateUser_key two_keys_request = JStr ''dev-seed-key''"
  using key_precedence [of two_keys_request]
  by (simp add: documented_key_def two_keys_request_def qparam_def bparam_def req_get_def)


section \<open>Seeding\<close>

lemma js_lt_trips: "js_lt (Fin (of_nat i)) n \<longleftrightarrow> i < trips n"
proof (cases n)
  case NaN
  then show ?thesis by simp
next
  case (Fin q)
  have "(of_nat i < q) = (int i < \<lceil>q\<rceil>)"
    by (metis less_ceiling_iff of_int_of_nat_eq)
  then show ?thesis using Fin by auto
qed

lemma for_loop_unfold:
  "for_loop n i step s =
     (if i < trips n
      then (case step s of Inl e \<Rightarrow> Inl e | Inr s' \<Rightarrow> for_loop n (Suc i) step s')
      else Inr s)"
  by (subst for_loop.simps) (simp add: js_lt_trips)

lemma for_loop_rule:
  assumes "for_loop n i step s = Inr s'"
    and "P i s"
    and "\<And>j t t'. i \<le> j \<Longrightarrow> j < trips n \<Longrightarrow> P j t \<Longrightarrow> step t = Inr t' \<Longrightarrow> P (Suc j) t'"
  shows "P (max i (trips n)) s'"
  using assms
proof (induction "trips n - i" arbitrary: i s)
  case 0
  then have "\<not> i < trips n" by simp
  with 0 show ?case
    by (simp add: for_loop_unfold max_def)
next
  case (Suc k)
  then have lt: "i < trips n" by simp
  with Suc.prems(1) obtain t where t: "step s = Inr t" and rest: "for_loop n (Suc i) step t = Inr s'"
    by (auto simp: for_loop_unfold [of n i] split: sum.splits)
  have "P (Suc i) t"
    using Suc.prems(3) [of i s t] lt Suc.prems(2) t by simp
  moreover have "k = trips n - Suc i"
    using Suc.hyps(2) by simp
  ultimately have "P (max (Suc i) (trips n)) s'"
    using Suc.hyps(1) [of "Suc i" t] rest Suc.prems(3) by simp
  then show ?case
    using lt by (simp add: max_def)
qed

lemma user_loop:
  assumes "for_loop n 0 (user_step fk) ([], g) = Inr (us, g')"
  shows "length us = trips n \<and> (\<forall>u \<in> set us. \<exists>h. u = fst (makeFakeUser fk h))"
proof -
  let ?P = "\<lambda>j (st :: fake_user list \<times> nat).
    length (fst st) = j \<and> (\<forall>u \<in> set (fst st). \<exists>h. u = fst (makeFakeUser fk h))"
  have "?P (max 0 (trips n)) (us, g')"
  proof (rule for_loop_rule [OF assms, where P = ?P])
    show "?P 0 ([], g)" by simp
  next
    fix j t t'
    assume "?P j t" and "user_step fk t = Inr t'"
    then show "?P (Suc j) t'"
      apply (cases t)
      apply (auto simp: user_step_def split: prod.splits)
      apply (metis fst_conv)
      done
  qed
  then show ?thesis by simp
qed

lemma album_loop:
  assumes "for_loop n 0 (album_step fk art) (als, g) = Inr (als', g')"
  shows "length als' = length als + trips n"
proof -
  let ?P = "\<lambda>j (st :: fake_album list \<times> nat). length (fst st) = length als + j"
  have "?P (max 0 (trips n)) (als', g')"
  proof (rule for_loop_rule [OF assms, where P = ?P])
    show "?P 0 (als, g)" by simp
  next
    fix j t t'
    assume "?P j t" and "album_step fk art t = Inr t'"
    then show "?P (Suc j) t'"
      by (cases t) (auto simp: album_step_def split: prod.splits sum.splits)
  qed
  then show ?thesis by simp
qed

lemma artist_loop:
  assumes "for_loop n 0 (artist_step fk m) ([], [], g) = Inr (arts, als, g')"
  shows "length arts = trips n \<and> length als = trips n * trips m"
proof -
  let ?P = "\<lambda>j (st :: fake_artist list \<times> fake_album list \<times> nat).
    length (fst st) = j \<and> length (fst (snd st)) = j * trips m"
  have "?P (max 0 (trips n)) (arts, als, g')"
  proof (rule for_loop_rule [OF assms, where P = ?P])
    show "?P 0 ([], [], g)" by simp
  next
    fix j t t'
    assume "?P j t" and "artist_step fk m t = Inr t'"
    then show "?P (Suc j) t'"
      by (cases t) (auto simp: artist_step_def split: prod.splits sum.splits dest!: album_loop)
  qed
  then show ?thesis by simp
qed

lemma arrayElement_member:
  "arrayElement fk xs g = Inr (x, g') \<Longrightarrow> x \<in> set xs"
  by (auto simp: arrayElement_def Let_def split: if_splits)

lemma makeFakeReview_ids:
  "makeFakeReview rt fk uid aid g = (rv, g') \<Longrightarrow>
     rv_userId rv = uid \<and> rv_firebaseUserId rv = uid \<and> rv_albumId rv = aid"
  by (auto simp: makeFakeReview_def)

lemma review_slots:
  assumes "for_loop n 0 (review_step rt fk als u) (rvs, g) = Inr (rvs', g')"
  shows "length rvs' = length rvs + trips n
         \<and> (\<forall>rv \<in> set rvs'. rv \<in> set rvs \<or> (rv_userId rv = u_id u \<and> rv_albumId rv \<in> al_id ` set als))"
proof -
  let ?P = "\<lambda>j (st :: fake_review list \<times> nat).
    length (fst st) = length rvs + j
    \<and> (\<forall>rv \<in> set (fst st). rv \<in> set rvs \<or> (rv_userId rv = u_id u \<and> rv_albumId rv \<in> al_id ` set als))"
  have "?P (max 0 (trips n)) (rvs', g')"
  proof (rule for_loop_rule [OF assms, where P = ?P])
    show "?P 0 (rvs, g)" by simp
  next
    fix j t t'
    assume "?P j t" and "review_step rt fk als u t = Inr t'"
    then show "?P (Suc j) t'"
      by (cases t)
         (auto simp: review_step_def split: prod.splits sum.splits
               dest!: arrayElement_member makeFakeReview_ids)
  qed
  then show ?thesis by simp
qed

lemma review_loop_result:
  "review_loop rt fk n als us (rvs, g) = Inr (rvs', g') \<Longrightarrow>
     length rvs' = length rvs + length us * trips n
     \<and> (\<forall>rv \<in> set rvs'. rv \<in> set rvs
           \<or> (rv_userId rv \<in> u_id ` set us \<and> rv_albumId rv \<in> al_id ` set als))"
proof (induction us arbitrary: rvs g)
  case Nil
  then show ?case by simp
next
  case (Cons u us)
  from Cons.prems obtain mid h
    where slots: "for_loop n 0 (review_step rt fk als u) (rvs, g) = Inr (mid, h)"
      and rest: "review_loop rt fk n als us (mid, h) = Inr (rvs', g')"
    by (auto split: sum.splits)
  note a = review_slots [OF slots] and b = Cons.IH [OF rest]
  show ?case
  proof (intro conjI ballI)
    show "length rvs' = length rvs + length (u # us) * trips n"
      using a b by simp
  next
    fix rv assume "rv \<in> set rvs'"
    then consider "rv \<in> set mid" | "rv_userId rv \<in> u_id ` set us \<and> rv_albumId rv \<in> al_id ` set als"
      using b by blast
    then show "rv \<in> set rvs \<or> (rv_userId rv \<in> u_id ` set (u # us) \<and> rv_albumId rv \<in> al_id ` set als)"
    proof cases
      case 1
      then show ?thesis using a by auto
    next
      case 2
      then show ?thesis by auto
    qed
  qed
qed

lemma generate_result:
  assumes "generate rt fk nu na np nr g = Inr gen"
  shows "length (users gen) = trips nu"
    and "length (artists gen) = trips na"
    and "length (albums gen) = trips na * trips np"
    and "length (reviews gen) = trips nu * trips nr"
    and "\<forall>u \<in> set (users gen). \<exists>h. u = fst (makeFakeUser fk h)"
    and "\<forall>rv \<in> set (reviews gen).
           rv_userId rv \<in> u_id ` set (users gen) \<and> rv_albumId rv \<in> al_id ` set (albums gen)"
proof -
  from assms obtain us g1 arts als g2 rvs g3
    where u: "for_loop nu 0 (user_step fk) ([], g) = Inr (us, g1)"
      and a: "for_loop na 0 (artist_step fk np) ([], [], g1) = Inr (arts, als, g2)"
      and r: "review_loop rt fk nr als us ([], g2) = Inr (rvs, g3)"
      and gen: "gen = \<lparr>users = us, artists = arts, albums = als, reviews = rvs\<rparr>"
    by (auto simp: generate_def split: sum.splits prod.splits)
  note U = user_loop [OF u] and A = artist_loop [OF a] and R = review_loop_result [OF r]
  show "length (users gen) = trips nu" using U gen by simp
  show "length (artists gen) = trips na" using A gen by simp
  show "length (albums gen) = trips na * trips np" using A gen by simp
  show "length (reviews gen) = trips nu * trips nr" using R U gen by simp
  show "\<forall>u \<in> set (users gen). \<exists>h. u = fst (makeFakeUser fk h)" using U gen by simp
  show "\<forall>rv \<in> set (reviews gen).
           rv_userId rv \<in> u_id ` set (users gen) \<and> rv_albumId rv \<in> al_id ` set (albums gen)"
    using R gen by simp
qed


lemma batch_commit_cases:
  assumes "batch_commit gw b w = (r, w')"
  shows "issued w' = issued w @ [Commit b]"
    and "r = Inr () \<Longrightarrow> gw_commit gw (store w) b = Inr (store w')"
  using assms by (auto simp: batch_commit_def Let_def split: sum.splits)

lemma commit_loop_trace:
  assumes "commit_loop gw ops batch count w = (r, w')"
    and "count = length batch" and "count < BATCH_SIZE"
  shows "\<exists>bs rest.
           issued w' = issued w @ map Commit bs
           \<and> (\<forall>b \<in> set bs. b \<noteq> [] \<and> length b \<le> BATCH_SIZE)
           \<and> batch @ map set_merge ops = concat bs @ rest
           \<and> (r = Inr () \<longrightarrow>
                rest = []
                \<and> length bs = (count + length ops + (BATCH_SIZE - 1)) div BATCH_SIZE
                \<and> commit_all gw bs (store w) = Inr (store w'))"
  using assms
proof (induction ops arbitrary: batch count w)
  case Nil
  show ?case
  proof (cases "count > 0")
    case True
    with Nil have bc: "batch_commit gw batch w = (r, w')" by simp
    have "issued w' = issued w @ map Commit [batch]"
      using batch_commit_cases(1) [OF bc] by simp
    moreover have "\<forall>b \<in> set [batch]. b \<noteq> [] \<and> length b \<le> BATCH_SIZE"
      using True Nil.prems by auto
    moreover have "batch @ map set_merge [] = concat [batch] @ []" by simp
    moreover have "r = Inr () \<longrightarrow> [] = ([] :: batch_write list)
        \<and> length [batch] = (count + length ([] :: seed_op list) + (BATCH_SIZE - 1)) div BATCH_SIZE
        \<and> commit_all gw [batch] (store w) = Inr (store w')"
      using True Nil.prems(3) batch_commit_cases(2) [OF bc] by (auto simp: BATCH_SIZE_def)
    ultimately show ?thesis by blast
  next
    case False
    with Nil have "r = Inr ()" "w' = w" "batch = []" by auto
    then have "issued w' = issued w @ map Commit []
        \<and> (\<forall>b \<in> set ([] :: batch_write list list). b \<noteq> [] \<and> length b \<le> BATCH_SIZE)
        \<and> batch @ map set_merge [] = concat [] @ []
        \<and> (r = Inr () \<longrightarrow> [] = ([] :: batch_write list)
            \<and> length ([] :: batch_write list list) = (count + length ([] :: seed_op list) + (BATCH_SIZE - 1)) div BATCH_SIZE
            \<and> commit_all gw [] (store w) = Inr (store w'))"
      using False by (simp add: BATCH_SIZE_def)
    then show ?thesis by blast
  qed
next
  case (Cons x ops)
  let ?batch' = "batch @ [set_merge x]"
  show ?case
  proof (cases "count + 1 \<ge> BATCH_SIZE")
    case full: True
    then have cnt: "count + 1 = BATCH_SIZE" using Cons.prems(3) by simp
    obtain r1 w1 where bc: "batch_commit gw ?batch' w = (r1, w1)"
      by (cases "batch_commit gw ?batch' w")
    have tr1: "issued w1 = issued w @ [Commit ?batch']"
      using batch_commit_cases(1) [OF bc] .
    have len1: "length ?batch' = BATCH_SIZE" using cnt Cons.prems(2) by simp
    show ?thesis
    proof (cases r1)
      case (Inl e)
      with Cons.prems(1) full bc have "r = Inl e" "w' = w1"
        by (auto simp: set_merge_def Let_def)
      then have "issued w' = issued w @ map Commit [?batch']
          \<and> (\<forall>b \<in> set [?batch']. b \<noteq> [] \<and> length b \<le> BATCH_SIZE)
          \<and> batch @ map set_merge (x # ops) = concat [?batch'] @ map set_merge ops
          \<and> (r = Inr () \<longrightarrow> map set_merge ops = []
              \<and> length [?batch'] = (count + length (x # ops) + (BATCH_SIZE - 1)) div BATCH_SIZE
              \<and> commit_all gw [?batch'] (store w) = Inr (store w'))"
        using tr1 len1 by simp
      then show ?thesis by blast
    next
      case (Inr u)
      with Cons.prems(1) full bc have rest: "commit_loop gw ops [] 0 w1 = (r, w')"
        by (auto simp: set_merge_def Let_def)
      have "(0::nat) < BATCH_SIZE" by (simp add: BATCH_SIZE_def)
      from Cons.IH [OF rest _ this] obtain bs rest'
        where ih: "issued w' = issued w1 @ map Commit bs"
          "\<forall>b \<in> set bs. b \<noteq> [] \<and> length b \<le> BATCH_SIZE"
          "[] @ map set_merge ops = concat bs @ rest'"
          "r = Inr () \<longrightarrow> rest' = []
             \<and> length bs = (0 + length ops + (BATCH_SIZE - 1)) div BATCH_SIZE
             \<and> commit_all gw bs (store w1) = Inr (store w')"
        by auto
      have c1: "gw_commit gw (store w) ?batch' = Inr (store w1)"
        using batch_commit_cases(2) [OF bc] Inr by simp
      have "issued w' = issued w @ map Commit (?batch' # bs)"
        using ih(1) tr1 by simp
      moreover have "\<forall>b \<in> set (?batch' # bs). b \<noteq> [] \<and> length b \<le> BATCH_SIZE"
        using ih(2) len1 by simp
      moreover have "batch @ map set_merge (x # ops) = concat (?batch' # bs) @ rest'"
        using ih(3) by simp
      moreover have "r = Inr () \<longrightarrow> rest' = []
          \<and> length (?batch' # bs) = (count + length (x # ops) + (BATCH_SIZE - 1)) div BATCH_SIZE
          \<and> commit_all gw (?batch' # bs) (store w) = Inr (store w')"
        using ih(4) c1 cnt by (auto simp: BATCH_SIZE_def)
      ultimately show ?thesis by blast
    qed
  next
    case False
    with Cons.prems(1) have rest: "commit_loop gw ops ?batch' (count + 1) w = (r, w')"
      by (auto simp: set_merge_def Let_def)
    have "count + 1 = length ?batch'" using Cons.prems(2) by simp
    moreover have "count + 1 < BATCH_SIZE" using False by simp
    ultimately obtain bs rest'
      where ih: "issued w' = issued w @ map Commit bs"
        "\<forall>b \<in> set bs. b \<noteq> [] \<and> length b \<le> BATCH_SIZE"
        "?batch' @ map set_merge ops = concat bs @ rest'"
        "r = Inr () \<longrightarrow> rest' = []
           \<and> length bs = (count + 1 + length ops + (BATCH_SIZE - 1)) div BATCH_SIZE
           \<and> commit_all gw bs (store w) = Inr (store w')"
      using Cons.IH [OF rest] by blast
    have "batch @ map set_merge (x # ops) = concat bs @ rest'"
      using ih(3) by simp
    moreover have "r = Inr () \<longrightarrow> rest' = []
        \<and> length bs = (count + length (x # ops) + (BATCH_SIZE - 1)) div BATCH_SIZE
        \<and> commit_all gw bs (store w) = Inr (store w')"
      using ih(4) by simp
    ultimately show ?thesis using ih(1,2) by blast
  qed
qed


lemma trips_of_nat [simp]: "trips (Fin (of_nat n)) = n"
  by simp

lemma writes_of_commits [simp]: "writes_of (map Commit bs) = concat bs"
  by (induction bs) auto

lemma seedData_trace:
  assumes "seedData rt fk gw d req g w = (resp, w')"
  shows "(w' = w \<and> status resp \<noteq> 200)
       \<or> (\<exists>gen bs rest.
            seed_generate rt fk req g = Inr gen
            \<and> issued w' = issued w @ map Commit bs
            \<and> (\<forall>b \<in> set bs. b \<noteq> [] \<and> length b \<le> BATCH_SIZE)
            \<and> map set_merge (seed_ops gen) = concat bs @ rest
            \<and> (status resp = 200 \<longrightarrow>
                 rest = [] \<and> json resp = seeded_json gen
                 \<and> length bs = (length (seed_ops gen) + (BATCH_SIZE - 1)) div BATCH_SIZE
                 \<and> commit_all gw bs (store w) = Inr (store w')))"
proof (cases "unauthorized d (seedData_key req)")
  case True
  with assms show ?thesis by (auto simp: seedData_def)
next
  case auth: False
  show ?thesis
  proof (cases "seed_generate rt fk req g")
    case (Inl e)
    with assms auth show ?thesis by (cases e) (auto simp: seedData_def)
  next
    case (Inr gen)
    obtain r w1 where cm: "commit_loop gw (seed_ops gen) [] 0 w = (r, w1)"
      by (cases "commit_loop gw (seed_ops gen) [] 0 w")
    have "(0::nat) = length ([] :: batch_write list)" "(0::nat) < BATCH_SIZE"
      by (simp_all add: BATCH_SIZE_def)
    from commit_loop_trace [OF cm this] obtain bs rest
      where tr: "issued w1 = issued w @ map Commit bs"
        "\<forall>b \<in> set bs. b \<noteq> [] \<and> length b \<le> BATCH_SIZE"
        "map set_merge (seed_ops gen) = concat bs @ rest"
        "r = Inr () \<longrightarrow> rest = []
           \<and> length bs = (0 + length (seed_ops gen) + (BATCH_SIZE - 1)) div BATCH_SIZE
           \<and> commit_all gw bs (store w) = Inr (store w1)"
      by auto
    have res: "w' = w1" "status resp = 200 \<longrightarrow> r = Inr () \<and> json resp = seeded_json gen"
      using assms auth Inr cm
      by (auto simp: seedData_def commitBatchOps_def split: sum.splits exn.splits)
    show ?thesis
      using Inr tr res by auto
  qed
qed






lemma for_loop_step:
  "i < trips n \<Longrightarrow>
     for_loop n i step s = (case step s of Inl e \<Rightarrow> Inl e | Inr s' \<Rightarrow> for_loop n (Suc i) step s')"
  by (simp add: for_loop_unfold [of n i])

lemma for_loop_done: "\<not> i < trips n \<Longrightarrow> for_loop n i step s = Inr s"
  by (simp add: for_loop_unfold [of n i])

subsection \<open>No artist, no album, no review\<close>

lemma makeFakeArtist_throws:
  "makeFakeArtist fk g = Inl (Exn ''TypeError: faker.image.urlPicsum is not a function'')"
  by (simp add: makeFakeArtist_def image_urlPicsum_def Let_def)

lemma artist_step_throws:
  "artist_step fk m st = Inl (Exn ''TypeError: faker.image.urlPicsum is not a function'')"
  by (cases st) (simp add: artist_step_def makeFakeArtist_throws split: prod.splits)

lemma artist_loop_cases:
  "for_loop n 0 (artist_step fk m) st =
     (if 0 < trips n then Inl (Exn ''TypeError: faker.image.urlPicsum is not a function'')
      else Inr st)"
  by (simp add: for_loop_unfold [of n 0] artist_step_throws)


lemma review_loop_none:
  "trips n = 0 \<Longrightarrow> review_loop rt fk n als us st = Inr st"
  by (induction us arbitrary: st) (simp_all add: for_loop_done)


lemma generate_users_only:
  assumes "generate rt fk nu na np nr g = Inr gen"
  shows "artists gen = [] \<and> albums gen = [] \<and> reviews gen = []"
proof -
  from assms obtain us g1 arts als g2 rvs g3
    where a: "for_loop na 0 (artist_step fk np) ([], [], g1) = Inr (arts, als, g2)"
      and r: "review_loop rt fk nr als us ([], g2) = Inr (rvs, g3)"
      and gen: "gen = \<lparr>users = us, artists = arts, albums = als, reviews = rvs\<rparr>"
    by (auto simp: generate_def split: sum.splits prod.splits)
  from a have e: "arts = []" "als = []"
    by (auto simp: artist_loop_cases split: if_splits)
  from review_loop_result [OF r] have "rvs = []"
    unfolding e by (cases rvs) auto
  with e gen show ?thesis by simp
qed

lemma generate_only_users:
  assumes "for_loop nu 0 (user_step fk) ([], g) = Inr (us, g')"
    and "trips na = 0" and "trips nr = 0 \<or> us = []"
  shows "generate rt fk nu na np nr g = Inr (only_users us)"
proof -
  have "review_loop rt fk nr [] us ([], g') = Inr ([], g')"
    using assms(3) by (auto simp: review_loop_none)
  then show ?thesis
    using assms(1,2) by (simp add: generate_def artist_loop_cases only_users_def)
qed

subsection \<open>Example runs\<close>

lemma char_of_eq_iff: "char_of (n::nat) = c \<longleftrightarrow> n mod 256 = of_char c"
proof
  assume "char_of n = c"
  then have "of_char (char_of n) = (of_char c :: nat)" by simp
  then show "n mod 256 = of_char c" by simp
next
  assume "n mod 256 = of_char c"
  then have "char_of (n mod 256) = char_of (of_char c :: nat)" by simp
  then show "char_of n = c" by simp
qed

lemma eq_char_of_iff: "c = char_of (n::nat) \<longleftrightarrow> n mod 256 = of_char c"
  using char_of_eq_iff [of n c] by auto

lemma example_faker_sel:
  "string_uuid example_faker g = ''user-'' @ show_nat g"
  "internet_userName example_faker g = ''Ann.Lee42''"
  "person_fullName example_faker g = ''Ann Lee''"
  "image_avatar example_faker g = ''https://img/a.png''"
  "internet_email example_faker g = ''ann@example.org''"
  "lorem_sentence example_faker g = ''Lorem.''"
  by (simp_all add: example_faker_def)

lemma makeFakeUser_at: "makeFakeUser example_faker g = (example_user_at g, g + 6)"
  by (simp add: makeFakeUser_def example_faker_sel example_user_at_def toLowerCase_def
      strip_non_word_def lower_char_def word_char_def char_of_eq_iff Let_def del: show_nat.simps)

lemma example_user_at_0: "example_user_at 0 = example_user"
  by (simp add: example_user_at_def example_user_def char_of_eq_iff)

lemma makeFakeUser_example: "makeFakeUser example_faker 0 = (example_user, 6)"
  by (simp add: makeFakeUser_at example_user_at_0)

lemma one_user_loop:
  "for_loop (Fin 1) 0 (user_step example_faker) ([], 0) = Inr ([example_user], 6)"
  by (simp add: for_loop_step for_loop_done user_step_def makeFakeUser_example)



lemma no_user_loop:
  "\<not> 0 < trips n \<Longrightarrow> for_loop n 0 (user_step example_faker) ([], 0) = Inr ([], 0)"
  by (simp add: for_loop_done)

lemma example_digits:
  "string_to_number example_runtime ''0'' = Fin 0"
  "string_to_number example_runtime ''1'' = Fin 1"
  "string_to_number example_runtime ''abc'' = NaN"
  by (simp_all add: example_runtime_def)

lemma small_counts:
  "usersCount example_runtime small_seed_request = Inr (Fin 1)"
  "artistsCount example_runtime small_seed_request = Inr (Fin 0)"
  "albumsPerArtist example_runtime small_seed_request = Inr (Fin 3)"
  "reviewsPerUser example_runtime small_seed_request = Inr (Fin 0)"
  by (simp_all add: usersCount_def artistsCount_def albumsPerArtist_def reviewsPerUser_def
      capped_def small_seed_request_def example_digits qparam_def bparam_def js_or_def)

lemma negative_counts:
  "usersCount example_runtime negative_users_request = Inr (Fin (- 3))"
  "artistsCount example_runtime negative_users_request = Inr (Fin 0)"
  "albumsPerArtist example_runtime negative_users_request = Inr (Fin 3)"
  "reviewsPerUser example_runtime negative_users_request = Inr (Fin 2)"
  by (simp_all add: usersCount_def artistsCount_def albumsPerArtist_def reviewsPerUser_def
      capped_def negative_users_request_def example_digits qparam_def bparam_def js_or_def)

lemma abc_counts:
  "usersCount example_runtime abc_users_request = Inr NaN"
  "artistsCount example_runtime abc_users_request = Inr (Fin 0)"
  "albumsPerArtist example_runtime abc_users_request = Inr (Fin 3)"
  "reviewsPerUser example_runtime abc_users_request = Inr (Fin 2)"
  by (simp_all add: usersCount_def artistsCount_def albumsPerArtist_def reviewsPerUser_def
      capped_def abc_users_request_def example_digits qparam_def bparam_def js_or_def)




lemma example_keys:
  "seedData_key small_seed_request = JStr ''dev-seed-key''"
  "seedData_key negative_users_request = JStr ''dev-seed-key''"
  "seedData_key abc_users_request = JStr ''dev-seed-key''"
  "seedData_key fractional_users_request = JStr ''dev-seed-key''"
  "seedData_key default_seed_request = JStr ''dev-seed-key''"
  "seedData_key one_review_request = JStr ''dev-seed-key''"
  by (simp_all add: seedData_key_def small_seed_request_def negative_users_request_def
      abc_users_request_def fractional_users_request_def default_seed_request_def
      one_review_request_def js_or_def js_and_def req_get_def)

lemma example_authorized: "\<not> unauthorized dev_deployment (JStr ''dev-seed-key'')"
  by (simp add: unauthorized_def dev_seed_key)

lemma small_generate:
  "seed_generate example_runtime example_faker small_seed_request 0 = Inr small_generated"
  by (simp add: seed_generate_def small_counts small_generated_def
      generate_only_users [OF one_user_loop])

lemma negative_generate:
  "seed_generate example_runtime example_faker negative_users_request 0 = Inr (only_users [])"
  by (simp add: seed_generate_def negative_counts generate_only_users [OF no_user_loop])

lemma abc_generate:
  "seed_generate example_runtime example_faker abc_users_request 0 = Inr (only_users [])"
  by (simp add: seed_generate_def abc_counts generate_only_users [OF no_user_loop])




lemma no_ops_commit:
  "commitBatchOps accepting_gateway (seed_ops (only_users [])) fresh_world = (Inr (), fresh_world)"
  by (simp add: commitBatchOps_def seed_ops_def only_users_def)

lemma few_ops_commit:
  assumes "us \<noteq> []" and "length us < 500"
  shows "commitBatchOps accepting_gateway (seed_ops (only_users us)) fresh_world
     = (Inr (), \<lparr>store = (), issued = [Commit (map set_merge (seed_ops (only_users us)))]\<rparr>)"
proof -
  have "commit_loop accepting_gateway ops batch (length batch) fresh_world
      = (Inr (), \<lparr>store = (), issued = [Commit (batch @ map set_merge ops)]\<rparr>)"
    if "length batch + length ops < 500" "batch @ map set_merge ops \<noteq> []" for ops batch
    using that
  proof (induction ops arbitrary: batch)
    case Nil
    then show ?case
      by (simp add: batch_commit_def accepting_gateway_def fresh_world_def)
  next
    case (Cons x ops)
    have "commit_loop accepting_gateway (x # ops) batch (length batch) fresh_world
        = commit_loop accepting_gateway ops (batch @ [set_merge x]) (length (batch @ [set_merge x])) fresh_world"
      using Cons.prems(1) by (simp add: BATCH_SIZE_def set_merge_def Let_def)
    also have "\<dots> = (Inr (), \<lparr>store = (), issued = [Commit ((batch @ [set_merge x]) @ map set_merge ops)]\<rparr>)"
      using Cons.prems by (intro Cons.IH) simp_all
    finally show ?case by simp
  qed
  from this [of "[]" "seed_ops (only_users us)"] assms show ?thesis
    by (simp add: commitBatchOps_def seed_ops_def only_users_def)
qed

lemma small_run:
  "seedData example_runtime example_faker accepting_gateway dev_deployment small_seed_request 0 fresh_world
     = (\<lparr>status = 200, json = seeded_json small_generated\<rparr>,
        \<lparr>store = (), issued = [Commit (map set_merge (seed_ops small_generated))]\<rparr>)"
  using few_ops_commit [of "[example_user]"]
  by (simp add: seedData_def example_authorized example_keys small_generate small_generated_def)

lemma negative_run:
  "seedData example_runtime example_faker accepting_gateway dev_deployment negative_users_request 0 fresh_world
     = (\<lparr>status = 200, json = seeded_json (only_users [])\<rparr>, fresh_world)"
  by (simp add: seedData_def example_authorized example_keys negative_generate no_ops_commit)

lemma abc_run:
  "seedData example_runtime example_faker accepting_gateway dev_deployment abc_users_request 0 fresh_world
     = (\<lparr>status = 200, json = seeded_json (only_users [])\<rparr>, fresh_world)"
  by (simp add: seedData_def example_authorized example_keys abc_generate no_ops_commit)






lemma seed_generate_cases:
  assumes "seed_generate rt fk req g = Inr gen"
  obtains nu na np nr where "generate rt fk nu na np nr g = Inr gen"
  using assms by (auto simp: seed_generate_def split: sum.splits)

lemma written_to_users:
  "x \<in> set (map set_merge (seed_ops gen)) \<Longrightarrow> written_to ''users'' x \<Longrightarrow>
     \<exists>u \<in> set (users gen). write_doc x = user_payload u"
  by (auto simp: seed_ops_def set_merge_def user_op_def artist_op_def album_op_def review_op_def)

lemma seedData_user_docs:
  assumes "seedData rt fk gw d req g w = (resp, w')" and "issued w' = issued w @ cs"
    and "doc \<in> set (docs_written ''users'' cs)"
  shows "\<exists>h. doc = user_payload (fst (makeFakeUser fk h))"
proof -
  from seedData_trace [OF assms(1)] consider "w' = w"
    | gen bs rest where "seed_generate rt fk req g = Inr gen"
        "issued w' = issued w @ map Commit bs"
        "map set_merge (seed_ops gen) = concat bs @ rest"
    by blast
  then show ?thesis
  proof cases
    case 1
    with assms(2) have "cs = []" by simp
    with assms(3) show ?thesis by (simp add: docs_written_def)
  next
    case 2
    with assms(2) have cs: "cs = map Commit bs" by simp
    from assms(3) obtain x where x: "x \<in> set (concat bs)" "written_to ''users'' x" "doc = write_doc x"
      unfolding docs_written_def cs writes_of_commits by auto
    have "x \<in> set (map set_merge (seed_ops gen))"
      using x(1) 2(3) by simp
    from written_to_users [OF this x(2)] obtain u where u: "u \<in> set (users gen)" "doc = user_payload u"
      using x(3) by auto
    from 2(1) obtain nu na np nr where "generate rt fk nu na np nr g = Inr gen"
      by (rule seed_generate_cases)
    from generate_result(5) [OF this] u show ?thesis by auto
  qed
qed

text \<open>
  C4. Every user a seed run generates has \<open>usernameLowercase\<close> equal to the
  lowercase of its \<open>username\<close> and \<open>nameLowercase\<close> equal to the lowercase of
  its \<open>name\<close>, and so has every document the run hands to the storage gateway for
  the users collection, whether the run ends well or not.
\<close>

theorem seeded_users_lowercase:
  assumes "seedData rt fk gw d req g w = (resp, w')" and "issued w' = issued w @ cs"
  shows "(\<forall>gen. seed_generate rt fk req g = Inr gen \<longrightarrow>
            (\<forall>u \<in> set (users gen).
               u_usernameLowercase u = toLowerCase (u_username u)
               \<and> u_nameLowercase u = toLowerCase (u_name u)))
       \<and> (\<forall>doc \<in> set (docs_written ''users'' cs).
            \<exists>un nm. get_prop doc ''username'' = JStr un
              \<and> get_prop doc ''usernameLowercase'' = JStr (toLowerCase un)
              \<and> get_prop doc ''name'' = JStr nm
              \<and> get_prop doc ''nameLowercase'' = JStr (toLowerCase nm))"
proof (intro conjI allI impI ballI)
  fix gen u assume "seed_generate rt fk req g = Inr gen" "u \<in> set (users gen)"
  then obtain h where "u = fst (makeFakeUser fk h)"
    using generate_result(5) by (elim seed_generate_cases) blast
  then show "u_usernameLowercase u = toLowerCase (u_username u)"
    and "u_nameLowercase u = toLowerCase (u_name u)"
    by (simp_all add: makeFakeUser_def Let_def)
next
  fix doc assume "doc \<in> set (docs_written ''users'' cs)"
  from seedData_user_docs [OF assms this] obtain h
    where "doc = user_payload (fst (makeFakeUser fk h))" by blast
  then show "\<exists>un nm. get_prop doc ''username'' = JStr un
      \<and> get_prop doc ''usernameLowercase'' = JStr (toLowerCase un)
      \<and> get_prop doc ''name'' = JStr nm
      \<and> get_prop doc ''nameLowercase'' = JStr (toLowerCase nm)"
    by (simp add: user_payload_def makeFakeUser_def Let_def)
qed

lemma small_user_docs:
  "docs_written ''users'' [Commit (map set_merge (seed_ops small_generated))] = [user_payload example_user]"
  by (simp add: docs_written_def seed_ops_def small_generated_def only_users_def set_merge_def
      user_op_def)

theorem seeded_users_lowercase_witness:
  "u_usernameLowercase example_user = toLowerCase (u_username example_user)
   \<and> u_nameLowercase example_user = toLowerCase (u_name example_user)
   \<and> (\<exists>un nm. get_prop (user_payload example_user) ''username'' = JStr un
        \<and> get_prop (user_payload example_user) ''usernameLowercase'' = JStr (toLowerCase un)
        \<and> get_prop (user_payload example_user) ''name'' = JStr nm
        \<and> get_prop (user_payload example_user) ''nameLowercase'' = JStr (toLowerCase nm))"
proof -
  have tr: "issued \<lparr>store = (), issued = [Commit (map set_merge (seed_ops small_generated))]\<rparr>
      = issued fresh_world @ [Commit (map set_merge (seed_ops small_generated))]"
    by (simp add: fresh_world_def)
  note t = seeded_users_lowercase [OF small_run tr]
  have "example_user \<in> set (users small_generated)"
    by (simp add: small_generated_def only_users_def)
  moreover have "user_payload example_user
      \<in> set (docs_written ''users'' [Commit (map set_merge (seed_ops small_generated))])"
    by (simp add: small_user_docs)
  ultimately show ?thesis
    using t small_generate by blast
qed



lemma no_reviews_written:
  assumes "seedData rt fk gw d req g w = (resp, w')" and "issued w' = issued w @ cs"
  shows "docs_written ''reviews'' cs = []"
proof -
  from seedData_trace [OF assms(1)] consider "w' = w"
    | gen bs rest where "seed_generate rt fk req g = Inr gen"
        "issued w' = issued w @ map Commit bs"
        "map set_merge (seed_ops gen) = concat bs @ rest"
    by blast
  then show ?thesis
  proof cases
    case 1
    with assms(2) show ?thesis by (simp add: docs_written_def)
  next
    case 2
    with assms(2) have cs: "cs = map Commit bs" by simp
    from 2(1) obtain nu na np nr where "generate rt fk nu na np nr g = Inr gen"
      by (rule seed_generate_cases)
    from generate_users_only [OF this] have "seed_ops gen = map user_op (users gen)"
      by (simp add: seed_ops_def)
    with 2(3) have all: "concat bs @ rest = map set_merge (map user_op (users gen))"
      by simp
    have "\<not> written_to ''reviews'' x" if "x \<in> set (concat bs)" for x
    proof -
      from that have "x \<in> set (concat bs @ rest)" by simp
      then obtain u where "x = set_merge (user_op u)"
        unfolding all by auto
      then show ?thesis
        by (simp add: set_merge_def user_op_def)
    qed
    then have "\<forall>x \<in> set (concat bs). \<not> written_to ''reviews'' x"
      by blast
    then show ?thesis
      by (simp add: docs_written_def cs filter_empty_conv)
  qed
qed

lemma lower_char_word:
  assumes "word_char c"
  shows "lower_word_char (lower_char c)"
proof -
  let ?n = "of_char c :: nat"
  show ?thesis
  proof (cases "65 \<le> ?n \<and> ?n \<le> 90")
    case True
    then have "lower_char c = char_of (?n + 32)"
      by (simp add: lower_char_def Let_def)
    moreover have "(of_char (char_of (?n + 32)) :: nat) = ?n + 32"
      using True by simp
    ultimately show ?thesis
      using True by (simp add: lower_word_char_def Let_def)
  next
    case False
    with assms have "(97 \<le> ?n \<and> ?n \<le> 122) \<or> (48 \<le> ?n \<and> ?n \<le> 57) \<or> ?n = 95"
      by (auto simp: word_char_def Let_def)
    then have "lower_char c = c"
      by (auto simp: lower_char_def Let_def)
    with \<open>(97 \<le> ?n \<and> ?n \<le> 122) \<or> (48 \<le> ?n \<and> ?n \<le> 57) \<or> ?n = 95\<close>
    show ?thesis
      by (simp add: lower_word_char_def Let_def)
  qed
qed

lemma lower_char_fixed: "lower_word_char c \<Longrightarrow> lower_char c = c"
  by (auto simp: lower_word_char_def lower_char_def Let_def)

lemma toLowerCase_fixed: "\<forall>c \<in> set s. lower_word_char c \<Longrightarrow> toLowerCase s = s"
  by (induction s) (auto simp: toLowerCase_def lower_char_fixed)

text \<open>
  C10. The username of a user the generator produces is the generated name with every
  character outside \<^verbatim>\<open>[a-zA-Z0-9_]\<close> removed, in lowercase; it consists of
  lowercase letters, digits and underscores only; and it equals the user's
  \<open>usernameLowercase\<close>.
\<close>

theorem generated_username_normalized:
  "u_username (fst (makeFakeUser fk g)) = toLowerCase (strip_non_word (internet_userName fk (g + 1)))
   \<and> (\<forall>c \<in> set (u_username (fst (makeFakeUser fk g))). lower_word_char c)
   \<and> u_username (fst (makeFakeUser fk g)) = u_usernameLowercase (fst (makeFakeUser fk g))"
proof -
  let ?u = "fst (makeFakeUser fk g)"
  have name: "u_username ?u = toLowerCase (strip_non_word (internet_userName fk (g + 1)))"
    by (simp add: makeFakeUser_def Let_def)
  have chars: "\<forall>c \<in> set (u_username ?u). lower_word_char c"
    unfolding name by (auto simp: toLowerCase_def strip_non_word_def lower_char_word)
  have "u_usernameLowercase ?u = toLowerCase (u_username ?u)"
    by (simp add: makeFakeUser_def Let_def)
  with toLowerCase_fixed [OF chars] have "u_username ?u = u_usernameLowercase ?u"
    by simp
  with name chars show ?thesis by blast
qed

theorem generated_username_normalized_witness:
  "u_username example_user = ''annlee42''
   \<and> list_all lower_word_char ''annlee42''
   \<and> u_usernameLowercase example_user = ''annlee42''"
  using generated_username_normalized [of example_faker 0]
  by (simp add: makeFakeUser_example list_all_iff) (simp add: example_user_def)

text \<open>
  C9, at the request \<^verbatim>\<open>GET /seedData?key=dev-seed-key&users=1&artists=0&reviewsPerUser=0\<close>,
  which is answered 200:
  the generated user has an \<open>updatedAt\<close> server timestamp, but the document written
  for it has no \<open>updatedAt\<close> field. It does carry the creation timestamp, the avatar
  URL under both names and the four counters at zero.
\<close>

theorem seeded_user_without_updatedAt:
  "docs_written ''users''
     (issued (snd (seedData example_runtime example_faker accepting_gateway dev_deployment
        small_seed_request 0 fresh_world)))
     = [user_payload example_user]
   \<and> fst (makeFakeUser example_faker 0) = example_user
   \<and> u_updatedAt example_user = ServerTimestamp
   \<and> map_of (spread (user_payload example_user)) ''updatedAt'' = None
   \<and> get_prop (user_payload example_user) ''createdAt'' = ServerTimestamp
   \<and> get_prop (user_payload example_user) ''profileImageUrl'' = get_prop (user_payload example_user) ''avatarUrl''
   \<and> map (get_prop (user_payload example_user))
        [''followers'', ''followersCount'', ''following'', ''followingCount'']
      = [int_num 0, int_num 0, int_num 0, int_num 0]"
  by (simp add: small_run small_user_docs makeFakeUser_example)
     (simp add: user_payload_def example_user_def)

theorem seeded_user_without_updatedAt_witness:
  "u_updatedAt (fst (makeFakeUser example_faker 0)) = ServerTimestamp
   \<and> map_of (spread (user_payload (fst (makeFakeUser example_faker 0)))) ''updatedAt'' = None"
  using seeded_user_without_updatedAt by simp



subsection \<open>Effective counts\<close>

lemma capped_rule:
  assumes "dflt \<noteq> 0" and "dflt \<le> cap" and "1 \<le> cap"
  shows "count_rule rt v dflt cap (capped rt (js_or v (JNum (Fin dflt))) cap)"
proof (cases "truthy v")
  case True
  have "clamp 1 cap (of_int n) = min (of_int n) cap" if "1 \<le> n" for n :: int
    using that assms(3) by (simp add: clamp_def min_def max_def)
  then show ?thesis
    using True by (auto simp: count_rule_def capped_def js_or_def)
next
  case False
  then show ?thesis
    using assms by (simp add: count_rule_def capped_def js_or_def)
qed

lemma seeded_json_counts:
  "get_prop (get_prop (seeded_json gen) ''counts'') ''users'' = nat_num (length (users gen))"
  "get_prop (get_prop (seeded_json gen) ''counts'') ''artists'' = nat_num (length (artists gen))"
  "get_prop (get_prop (seeded_json gen) ''counts'') ''albums'' = nat_num (length (albums gen))"
  "get_prop (get_prop (seeded_json gen) ''counts'') ''reviews'' = nat_num (length (reviews gen))"
  by (simp_all add: seeded_json_def)

lemma clamped_count:
  assumes "(1::int) \<le> n" and "1 \<le> cap"
  shows "nat_num (trips (Fin (clamp 1 (of_int cap) (of_int n)))) = JNum (Fin (clamp 1 (of_int cap) (of_int n)))"
proof -
  have "clamp 1 (of_int cap) (of_int n) = of_int (min n cap)"
    using assms by (simp add: clamp_def min_def max_def)
  moreover have "0 \<le> min n cap" using assms by simp
  ultimately show ?thesis
    by (simp add: nat_num_def)
qed

text \<open>
  C2, amended. For every seed request, the effective counts of users and of artists
  are computed from the query value or else the body value, those of albums per artist
  and of reviews per user from the query value alone: a missing (or otherwise falsy)
  value gives the default (20, 8, 3, 2); any other value is converted by
  \<^verbatim>\<open>Number\<close> and bounded above by the cap (500, 200, 20, 20), with no lower
  bound and no fallback for a value that is not numeric; so a value that converts to an
  integer from 1 on gives that integer clamped into 1..cap. A successful run returns as
  \<open>counts.users\<close> and \<open>counts.artists\<close> the number of times the loop over the
  effective count runs, which for an integer clamped into 1..cap is that integer, and
  as \<open>counts.albums\<close> and \<open>counts.reviews\<close> the products with the per-artist and
  per-user numbers.
\<close>

theorem effective_counts:
  "count_rule rt (requested req ''users'') 20 500 (usersCount rt req)
   \<and> count_rule rt (requested req ''artists'') 8 200 (artistsCount rt req)
   \<and> count_rule rt (qparam req ''albumsPerArtist'') 3 20 (albumsPerArtist rt req)
   \<and> count_rule rt (qparam req ''reviewsPerUser'') 2 20 (reviewsPerUser rt req)
   \<and> (\<forall>resp w' nu na np nr.
         seedData rt fk gw d req g w = (resp, w') \<and> status resp = 200
         \<and> usersCount rt req = Inr nu \<and> artistsCount rt req = Inr na
         \<and> albumsPerArtist rt req = Inr np \<and> reviewsPerUser rt req = Inr nr \<longrightarrow>
           get_prop (get_prop (json resp) ''counts'') ''users'' = nat_num (trips nu)
           \<and> get_prop (get_prop (json resp) ''counts'') ''artists'' = nat_num (trips na)
           \<and> get_prop (get_prop (json resp) ''counts'') ''albums'' = nat_num (trips na * trips np)
           \<and> get_prop (get_prop (json resp) ''counts'') ''reviews'' = nat_num (trips nu * trips nr))
   \<and> (\<forall>n cap :: int. 1 \<le> n \<and> 1 \<le> cap \<longrightarrow>
         nat_num (trips (Fin (clamp 1 (of_int cap) (of_int n))))
           = JNum (Fin (clamp 1 (of_int cap) (of_int n))))"
proof (intro conjI allI impI)
  show "count_rule rt (requested req ''users'') 20 500 (usersCount rt req)"
    unfolding usersCount_def requested_def [symmetric] by (rule capped_rule) simp_all
  show "count_rule rt (requested req ''artists'') 8 200 (artistsCount rt req)"
    unfolding artistsCount_def requested_def [symmetric] by (rule capped_rule) simp_all
  show "count_rule rt (qparam req ''albumsPerArtist'') 3 20 (albumsPerArtist rt req)"
    unfolding albumsPerArtist_def by (rule capped_rule) simp_all
  show "count_rule rt (qparam req ''reviewsPerUser'') 2 20 (reviewsPerUser rt req)"
    unfolding reviewsPerUser_def by (rule capped_rule) simp_all
next
  fix resp w' nu na np nr
  assume run: "seedData rt fk gw d req g w = (resp, w') \<and> status resp = 200
      \<and> usersCount rt req = Inr nu \<and> artistsCount rt req = Inr na
      \<and> albumsPerArtist rt req = Inr np \<and> reviewsPerUser rt req = Inr nr"
  then obtain gen where gen: "seed_generate rt fk req g = Inr gen" and js: "json resp = seeded_json gen"
    using seedData_trace [of rt fk gw d req g w resp w'] by auto
  have G: "generate rt fk nu na np nr g = Inr gen"
    using gen run by (simp add: seed_generate_def)
  show "get_prop (get_prop (json resp) ''counts'') ''users'' = nat_num (trips nu)"
    using generate_result(1) [OF G] by (simp add: js seeded_json_counts)
  show "get_prop (get_prop (json resp) ''counts'') ''artists'' = nat_num (trips na)"
    using generate_result(2) [OF G] by (simp add: js seeded_json_counts)
  show "get_prop (get_prop (json resp) ''counts'') ''albums'' = nat_num (trips na * trips np)"
    using generate_result(3) [OF G] by (simp add: js seeded_json_counts)
  show "get_prop (get_prop (json resp) ''counts'') ''reviews'' = nat_num (trips nu * trips nr)"
    using generate_result(4) [OF G] by (simp add: js seeded_json_counts)
next
  fix n cap :: int
  assume "1 \<le> n \<and> 1 \<le> cap"
  then show "nat_num (trips (Fin (clamp 1 (of_int cap) (of_int n))))
      = JNum (Fin (clamp 1 (of_int cap) (of_int n)))"
    using clamped_count [of n cap] by blast
qed

text \<open>
  C2, as stated, fails, at requests that are answered 200. A body value
  \<open>users = -3\<close> gives the effective count -3, not 1, and the run returns
  \<open>counts.users = 0\<close>; the query value \<open>users=abc\<close> gives the effective count NaN,
  not the default 20, and the run returns \<open>counts.users = 0\<close>; a body value
  \<open>albumsPerArtist = 5\<close> without a query value gives the effective count 3.
\<close>

theorem effective_counts_counterexample:
  "requested negative_users_request ''users'' = JNum (Fin (- 3))
   \<and> usersCount example_runtime negative_users_request = Inr (Fin (- 3))
   \<and> clamp 1 500 (- 3) = 1
   \<and> status (fst (seedData example_runtime example_faker accepting_gateway dev_deployment
                     negative_users_request 0 fresh_world)) = 200
   \<and> get_prop (get_prop (json (fst (seedData example_runtime example_faker accepting_gateway
         dev_deployment negative_users_request 0 fresh_world))) ''counts'') ''users'' = JNum (Fin 0)
   \<and> requested abc_users_request ''users'' = JStr ''abc''
   \<and> Number example_runtime (JStr ''abc'') = Inr NaN
   \<and> usersCount example_runtime abc_users_request = Inr NaN
   \<and> status (fst (seedData example_runtime example_faker accepting_gateway dev_deployment
                     abc_users_request 0 fresh_world)) = 200
   \<and> get_prop (get_prop (json (fst (seedData example_runtime example_faker accepting_gateway
         dev_deployment abc_users_request 0 fresh_world))) ''counts'') ''users'' = JNum (Fin 0)
   \<and> requested body_only_request ''albumsPerArtist'' = JNum (Fin 5)
   \<and> albumsPerArtist example_runtime body_only_request = Inr (Fin 3)"
proof -
  have "requested negative_users_request ''users'' = JNum (Fin (- 3))"
    by (simp add: requested_def negative_users_request_def qparam_def bparam_def js_or_def)
  moreover have "clamp 1 500 (- 3) = 1"
    by (simp add: clamp_def)
  moreover have "get_prop (get_prop (seeded_json (only_users [])) ''counts'') ''users'' = JNum (Fin 0)"
    by (simp add: seeded_json_counts only_users_def nat_num_def)
  moreover have "requested abc_users_request ''users'' = JStr ''abc''"
    by (simp add: requested_def abc_users_request_def qparam_def bparam_def js_or_def)
  moreover have "requested body_only_request ''albumsPerArtist'' = JNum (Fin 5)"
    by (simp add: requested_def body_only_request_def qparam_def bparam_def js_or_def)
  moreover have "albumsPerArtist example_runtime body_only_request = Inr (Fin 3)"
    by (simp add: albumsPerArtist_def body_only_request_def qparam_def capped_def js_or_def)
  ultimately show ?thesis
    by (simp add: negative_run abc_run negative_counts abc_counts example_digits)
qed

lemma count_ruleD:
  "count_rule rt v dflt cap c \<Longrightarrow> truthy v \<Longrightarrow> 1 \<le> n \<Longrightarrow> Number rt v = Inr (Fin (of_int n)) \<Longrightarrow>
     c = Inr (Fin (clamp 1 cap (of_int n)))"
  unfolding count_rule_def by blast

lemma count_rule_capD:
  "count_rule rt v dflt cap c \<Longrightarrow> truthy v \<Longrightarrow> Number rt v = Inr x \<Longrightarrow>
     c = Inr (Math_min x (Fin cap))"
  unfolding count_rule_def by blast

lemma count_rule_defaultD:
  "count_rule rt v dflt cap c \<Longrightarrow> \<not> truthy v \<Longrightarrow> c = Inr (Fin dflt)"
  unfolding count_rule_def by blast

theorem effective_counts_witness:
  "usersCount example_runtime small_seed_request = Inr (Fin (clamp 1 500 1))
   \<and> artistsCount example_runtime small_seed_request = Inr (Math_min (Fin 0) (Fin 200))
   \<and> albumsPerArtist example_runtime small_seed_request = Inr (Fin 3)
   \<and> reviewsPerUser example_runtime small_seed_request = Inr (Math_min (Fin 0) (Fin 20))
   \<and> get_prop (get_prop (seeded_json small_generated) ''counts'') ''users'' = nat_num 1
   \<and> get_prop (get_prop (seeded_json small_generated) ''counts'') ''artists'' = nat_num 0
   \<and> get_prop (get_prop (seeded_json small_generated) ''counts'') ''albums'' = nat_num 0
   \<and> get_prop (get_prop (seeded_json small_generated) ''counts'') ''reviews'' = nat_num 0"
proof -
  note t = effective_counts [of example_runtime small_seed_request example_faker
      accepting_gateway dev_deployment 0 fresh_world]
  have rq: "requested small_seed_request ''users'' = JStr ''1''"
    "requested small_seed_request ''artists'' = JStr ''0''"
    "qparam small_seed_request ''albumsPerArtist'' = JUndefined"
    "qparam small_seed_request ''reviewsPerUser'' = JStr ''0''"
    by (simp_all add: requested_def qparam_def small_seed_request_def js_or_def)
  have nm: "Number example_runtime (JStr ''1'') = Inr (Fin (of_int 1))"
    "Number example_runtime (JStr ''0'') = Inr (Fin 0)"
    by (simp_all add: example_digits)
  have tr: "truthy (JStr ''1'')" "truthy (JStr ''0'')" "\<not> truthy JUndefined" by simp_all
  have c1: "usersCount example_runtime small_seed_request = Inr (Fin (clamp 1 500 (of_int 1)))"
    by (rule count_ruleD [OF t [THEN conjunct1, unfolded rq] tr(1) _ nm(1)]) simp
  have c2: "artistsCount example_runtime small_seed_request = Inr (Math_min (Fin 0) (Fin 200))"
    by (rule count_rule_capD [OF t [THEN conjunct2, THEN conjunct1, unfolded rq] tr(2) nm(2)])
  have c3: "albumsPerArtist example_runtime small_seed_request = Inr (Fin 3)"
    by (rule count_rule_defaultD [OF t [THEN conjunct2, THEN conjunct2, THEN conjunct1, unfolded rq] tr(3)])
  have c4: "reviewsPerUser example_runtime small_seed_request = Inr (Math_min (Fin 0) (Fin 20))"
    by (rule count_rule_capD [OF t [THEN conjunct2, THEN conjunct2, THEN conjunct2, THEN conjunct1, unfolded rq]
          tr(2) nm(2)])
  have resp: "\<forall>resp w' nu na np nr.
         seedData example_runtime example_faker accepting_gateway dev_deployment
           small_seed_request 0 fresh_world = (resp, w') \<and> status resp = 200
         \<and> usersCount example_runtime small_seed_request = Inr nu
         \<and> artistsCount example_runtime small_seed_request = Inr na
         \<and> albumsPerArtist example_runtime small_seed_request = Inr np
         \<and> reviewsPerUser example_runtime small_seed_request = Inr nr \<longrightarrow>
           get_prop (get_prop (json resp) ''counts'') ''users'' = nat_num (trips nu)
           \<and> get_prop (get_prop (json resp) ''counts'') ''artists'' = nat_num (trips na)
           \<and> get_prop (get_prop (json resp) ''counts'') ''albums'' = nat_num (trips na * trips np)
           \<and> get_prop (get_prop (json resp) ''counts'') ''reviews'' = nat_num (trips nu * trips nr)"
    using t by (elim conjE)
  have "get_prop (get_prop (json \<lparr>status = 200, json = seeded_json small_generated\<rparr>) ''counts'') ''users''
        = nat_num (trips (Fin 1))
      \<and> get_prop (get_prop (json \<lparr>status = 200, json = seeded_json small_generated\<rparr>) ''counts'') ''artists''
        = nat_num (trips (Fin 0))
      \<and> get_prop (get_prop (json \<lparr>status = 200, json = seeded_json small_generated\<rparr>) ''counts'') ''albums''
        = nat_num (trips (Fin 0) * trips (Fin 3))
      \<and> get_prop (get_prop (json \<lparr>status = 200, json = seeded_json small_generated\<rparr>) ''counts'') ''reviews''
        = nat_num (trips (Fin 1) * trips (Fin 0))"
    by (rule resp [rule_format]) (simp add: small_run small_counts)
  then show ?thesis
    using c1 c2 c3 c4 by simp
qed

section \<open>Updating a user\<close>

lemma not_object_iff: "(\<not> truthy v \<or> typeof v \<noteq> ''object'') \<longleftrightarrow> \<not> is_object v"
  by (cases v) auto

lemma missing_falsy: "missing req k \<Longrightarrow> \<not> truthy (js_or (bparam req k) (qparam req k))"
  by (simp add: missing_def js_or_def)

lemma authorized_key: "key = SEED_KEY d \<Longrightarrow> \<not> unauthorized d key"
  using SEED_KEY_string [of d] by (auto simp: unauthorized_iff)

text \<open>
  C6. The handler validates a request after the authorization check of C1. For every
  updateUser request that has passed that check and in which id is missing, or updates
  is missing, or updates is not a non-null object, the response has status 400 with
  \<^verbatim>\<open>ok: false\<close>, and the handler returns the world it was given: no call to the
  storage gateway is issued.
\<close>

theorem missing_fields_rejected:
  assumes "updateUser_key req = SEED_KEY d"
    and "missing req ''id'' \<or> missing req ''updates'' \<or> \<not> is_object (updateUser_updates req)"
  shows "updateUser rt gw d req w =
           (\<lparr>status = 400,
             json = JObj [(''ok'', JBool False),
                          (''error'', JStr ''Bad request: missing id or updates'')]\<rparr>, w)"
proof -
  have "bad_request req"
    using assms(2) missing_falsy [of req "''id''"] missing_falsy [of req "''updates''"]
      not_object_iff [of "updateUser_updates req"]
    by (auto simp: bad_request_def updateUser_id_def updateUser_updates_def)
  then show ?thesis
    using authorized_key [OF assms(1)] by (simp add: updateUser_def error_json_def)
qed

lemma header_key: "req_get no_id_request ''x-seed-key'' = JStr ''dev-seed-key''"
  by (simp add: req_get_def no_id_request_def toLowerCase_def lower_char_def Let_def char_of_eq_iff eq_char_of_iff)

theorem missing_fields_rejected_witness:
  "updateUser_key no_id_request = SEED_KEY dev_deployment
   \<and> missing no_id_request ''id''
   \<and> updateUser example_runtime accepting_gateway dev_deployment no_id_request fresh_world =
           (\<lparr>status = 400,
             json = JObj [(''ok'', JBool False),
                          (''error'', JStr ''Bad request: missing id or updates'')]\<rparr>, fresh_world)"
proof -
  have k: "updateUser_key no_id_request = SEED_KEY dev_deployment"
    by (simp add: updateUser_key_def header_key dev_seed_key js_or_def)
       (simp add: no_id_request_def)
  have m: "missing no_id_request ''id''"
    by (simp add: missing_def bparam_def qparam_def no_id_request_def)
  from missing_fields_rejected [OF k disjI1 [OF m]] k m show ?thesis
    by blast
qed


lemma lowercase_of_eq:
  "String rt v = Inr s \<Longrightarrow>
     lowercase_of rt v = Inr (if truthy v then JStr (toLowerCase s) else JUndefined)"
  by (simp add: lowercase_of_def)

lemma object_valid:
  "truthy i \<Longrightarrow> is_object u \<Longrightarrow> truthy u \<and> typeof u = ''object''"
  by (cases u) auto

text \<open>
  Whatever the gateway does: a request that passes the authorization check and the
  validation, and whose \<open>username\<close> and \<open>name\<close> convert to strings without
  throwing, makes the handler call \<^verbatim>\<open>update\<close> first, on the document named by the
  id, with the supplied mapping in which \<open>usernameLowercase\<close>, \<open>nameLowercase\<close> and
  \<open>updatedAt\<close> are overwritten; a lowercase field whose source is not truthy is
  handed over as \<^verbatim>\<open>undefined\<close>.
\<close>

lemma update_handed_over:
  assumes key: "updateUser_key req = SEED_KEY d"
    and valid: "truthy (updateUser_id req)" "is_object (updateUser_updates req)"
    and conv: "String rt (get_prop (updateUser_updates req) ''username'') = Inr su"
      "String rt (get_prop (updateUser_updates req) ''name'') = Inr sn"
  shows "\<exists>cs. issued (snd (updateUser rt gw d req w)) =
           issued w @
           Update (DocRef ''users'' (updateUser_id req))
             (JObj (set_prop (set_prop (set_prop (spread (updateUser_updates req))
                ''usernameLowercase''
                  (if truthy (get_prop (updateUser_updates req) ''username'')
                   then JStr (toLowerCase su) else JUndefined))
                ''nameLowercase''
                  (if truthy (get_prop (updateUser_updates req) ''name'')
                   then JStr (toLowerCase sn) else JUndefined))
                ''updatedAt'' ServerTimestamp)) # cs"
proof -
  let ?ref = "DocRef ''users'' (updateUser_id req)"
  let ?p = "JObj (set_prop (set_prop (set_prop (spread (updateUser_updates req))
                ''usernameLowercase''
                  (if truthy (get_prop (updateUser_updates req) ''username'')
                   then JStr (toLowerCase su) else JUndefined))
                ''nameLowercase''
                  (if truthy (get_prop (updateUser_updates req) ''name'')
                   then JStr (toLowerCase sn) else JUndefined))
                ''updatedAt'' ServerTimestamp)"
  have auth: "\<not> unauthorized d (updateUser_key req)"
    by (rule authorized_key [OF key])
  have ok: "\<not> bad_request req"
    using object_valid [OF valid] valid(1) by (simp add: bad_request_def)
  have pay: "update_payload rt (updateUser_updates req) = Inr ?p"
    by (simp add: update_payload_def lowercase_of_eq [OF conv(1)] lowercase_of_eq [OF conv(2)])
  obtain r w1 where u: "ref_update gw ?ref ?p w = (r, w1)"
    by (cases "ref_update gw ?ref ?p w")
  then have i1: "issued w1 = issued w @ [Update ?ref ?p]"
    by (auto simp: ref_update_def Let_def split: sum.splits)
  obtain r2 w2 where g: "ref_get gw ?ref w1 = (r2, w2)"
    by (cases "ref_get gw ?ref w1")
  then have i2: "issued w2 = issued w1 @ [Get ?ref]"
    by (auto simp: ref_get_def)
  have run: "updateUser rt gw d req w =
      (case r of
         Inl (Exn msg) \<Rightarrow> (\<lparr>status = 500, json = error_json msg\<rparr>, w1)
       | Inr x \<Rightarrow>
           (case r2 of
              Inl (Exn msg) \<Rightarrow> (\<lparr>status = 500, json = error_json msg\<rparr>, w2)
            | Inr doc \<Rightarrow> (\<lparr>status = 200, json = JObj [(''ok'', JBool True), (''user'', doc)]\<rparr>, w2)))"
    unfolding updateUser_def Let_def using auth ok
    by (simp only: if_False pay sum.case u g prod.case)
  have "snd (updateUser rt gw d req w) = w1 \<or> snd (updateUser rt gw d req w) = w2"
    unfolding run by (cases r; cases r2) (auto split: exn.splits)
  then show ?thesis
    using i1 i2 by auto
qed

lemma rename_request_fields:
  "updateUser_key rename_request = JStr ''dev-seed-key''"
  "updateUser_id rename_request = JStr ''u1''"
  "updateUser_updates rename_request = JObj [(''username'', JStr ''Foo'')]"
  by (simp_all add: updateUser_key_def updateUser_id_def updateUser_updates_def rename_request_def
      bparam_def qparam_def js_or_def)

lemma lower_Foo: "toLowerCase ''Foo'' = ''foo''"
  by (simp add: toLowerCase_def lower_char_def Let_def char_of_eq_iff)

lemma rename_payload_handed:
  "update_payload example_runtime (JObj [(''username'', JStr ''Foo'')]) = Inr rename_payload"
  by (simp add: update_payload_def lowercase_of_def lower_Foo rename_payload_def)

text \<open>
  C5, on the code, at the request \<^verbatim>\<open>POST /updateUser\<close> with the body
  \<^verbatim>\<open>{key: "dev-seed-key", id: "u1", updates: {username: "Foo"}}\<close> and the user
  \<open>u1\<close> stored: the mapping handed to \<^verbatim>\<open>update\<close> holds \<open>nameLowercase\<close> as
  \<^verbatim>\<open>undefined\<close>, the client throws on it, the answer is 500 and the stored
  document is what it was, with the username \<open>bar\<close>.
\<close>

theorem rename_rejected:
  "update_payload example_runtime (updateUser_updates rename_request) = Inr rename_payload
   \<and> get_prop rename_payload ''usernameLowercase'' = JStr ''foo''
   \<and> map_of (spread rename_payload) ''nameLowercase'' = Some JUndefined
   \<and> holds_undefined rename_payload
   \<and> updateUser example_runtime document_gateway dev_deployment rename_request user_world
       = (\<lparr>status = 500,
           json = JObj [(''ok'', JBool False),
                        (''error'', JStr ''Error: Cannot use undefined as a Firestore value'')]\<rparr>,
          \<lparr>store = user_store,
           issued = [Update (DocRef ''users'' (JStr ''u1'')) rename_payload]\<rparr>)
   \<and> user_store (DocRef ''users'' (JStr ''u1'')) = Some (JObj stored_user)
   \<and> get_prop (JObj stored_user) ''username'' = JStr ''bar''"
proof -
  have ok: "\<not> bad_request rename_request"
    by (simp add: bad_request_def rename_request_fields)
  have und: "holds_undefined rename_payload"
    by (simp add: rename_payload_def)
  have run: "updateUser example_runtime document_gateway dev_deployment rename_request user_world
       = (\<lparr>status = 500,
           json = JObj [(''ok'', JBool False),
                        (''error'', JStr ''Error: Cannot use undefined as a Firestore value'')]\<rparr>,
          \<lparr>store = user_store,
           issued = [Update (DocRef ''users'' (JStr ''u1'')) rename_payload]\<rparr>)"
    by (simp add: updateUser_def Let_def example_authorized ok rename_request_fields
        rename_payload_handed ref_update_def document_gateway_def client_update_def und
        user_world_def error_json_def)
  show ?thesis
    by (simp add: run und rename_request_fields rename_payload_handed)
       (simp add: rename_payload_def user_store_def stored_user_def)
qed

theorem rename_rejected_witness:
  "status (fst (updateUser example_runtime document_gateway dev_deployment rename_request
                  user_world)) = 500
   \<and> store (snd (updateUser example_runtime document_gateway dev_deployment rename_request
                  user_world)) (DocRef ''users'' (JStr ''u1'')) = Some (JObj stored_user)"
  using rename_rejected by simp

end
